theory Spec2Isabelle
  imports Main "HOL-Library.Sublist"
begin

section \<open>Values and builtins of the Python runtime\<close>

text \<open>
  The program handles the values that \<^verbatim>\<open>resp.json()\<close> returns: \<^verbatim>\<open>None\<close>, booleans,
  integers, strings, lists and dictionaries. A dictionary is the list of its items in
  insertion order (its keys are distinct); \<^verbatim>\<open>d.get(k)\<close> is \<open>map_of\<close>. Numbers with a
  fractional part are not represented. A string is the list of its characters.
\<close>

datatype json =
    JNull
  | JBool bool
  | JInt int
  | JStr string
  | JList "json list"
  | JObj "(string \<times> json) list"

text \<open>
  The exceptions the program can raise. \<open>Abort c d\<close> is the HTTP exception that
  \<^verbatim>\<open>abort(c, d)\<close> of Flask raises, with status \<open>c\<close> and description \<open>d\<close>;
  \<open>AbortWorklog c k t\<close> is the one with the description
  \<^verbatim>\<open>f"[{k}] worklog error: {t}"\<close>, kept as its interpolated parts.
  \<open>LookupError c\<close> is what \<^verbatim>\<open>abort\<close> raises instead for a status \<open>c\<close> it has no
  exception class for: its message names the status and nothing else.
  \<open>HTTPError c t\<close> is the exception of \<^verbatim>\<open>raise_for_status\<close>, whose response has
  status \<open>c\<close> and text \<open>t\<close>; \<open>RequestException\<close> is any failure of
  \<^verbatim>\<open>requests.get\<close> to produce a response (no connection, timeout).
\<close>

datatype error =
    AttributeError
  | TypeError
  | ValueError
  | JSONDecodeError
  | RequestException
  | LookupError int
  | Abort int string
  | AbortWorklog int json string
  | HTTPError int string

text \<open>
  The statuses for which Werkzeug, whose \<^verbatim>\<open>Aborter\<close> Flask's \<^verbatim>\<open>abort\<close> calls, has an
  exception class.
\<close>

definition aborter_codes :: "int list" where
  "aborter_codes =
     [400, 401, 403, 404, 405, 406, 408, 409, 410, 411, 412, 413, 414, 415, 416, 417, 418,
      421, 422, 423, 424, 428, 429, 431, 451, 500, 501, 502, 503, 504, 505]"

text \<open>
  \<^verbatim>\<open>abort(code, description)\<close>: the exception it raises. \<open>flask_abort_worklog\<close> is the
  call of \<^verbatim>\<open>fetch_worklogs\<close>, whose description is built from the issue key and the
  response text.
\<close>

definition flask_abort :: "int \<Rightarrow> string \<Rightarrow> error" where
  "flask_abort code description =
     (if code \<in> set aborter_codes then Abort code description else LookupError code)"

definition flask_abort_worklog :: "int \<Rightarrow> json \<Rightarrow> string \<Rightarrow> error" where
  "flask_abort_worklog code issue_key resp_txt =
     (if code \<in> set aborter_codes then AbortWorklog code issue_key resp_txt
      else LookupError code)"

text \<open>\<^verbatim>\<open>x.get(k, default)\<close>: only a dictionary has the method.\<close>

fun py_get :: "json \<Rightarrow> string \<Rightarrow> json \<Rightarrow> error + json" where
  "py_get (JObj kvs) k dflt = Inr (case map_of kvs k of None \<Rightarrow> dflt | Some v \<Rightarrow> v)"
| "py_get _ k dflt = Inl AttributeError"

text \<open>Truth value of a value, as \<^verbatim>\<open>or\<close> and \<^verbatim>\<open>if\<close> test it.\<close>

fun py_truthy :: "json \<Rightarrow> bool" where
  "py_truthy JNull = False"
| "py_truthy (JBool b) = b"
| "py_truthy (JInt n) = (n \<noteq> 0)"
| "py_truthy (JStr s) = (s \<noteq> [])"
| "py_truthy (JList xs) = (xs \<noteq> [])"
| "py_truthy (JObj kvs) = (kvs \<noteq> [])"

definition py_or :: "json \<Rightarrow> json \<Rightarrow> json" where
  "py_or a b = (if py_truthy a then a else b)"

text \<open>
  The elements a \<^verbatim>\<open>for\<close> loop or \<^verbatim>\<open>list.extend\<close> draws from a value: the items of
  a list, the keys of a dictionary, the characters of a string; anything else is not
  iterable. \<^verbatim>\<open>len\<close> of these three is the number of elements.
\<close>

fun py_iter :: "json \<Rightarrow> error + json list" where
  "py_iter (JList xs) = Inr xs"
| "py_iter (JObj kvs) = Inr (map (\<lambda>kv. JStr (fst kv)) kvs)"
| "py_iter (JStr s) = Inr (map (\<lambda>c. JStr [c]) s)"
| "py_iter _ = Inl TypeError"

text \<open>
  \<^verbatim>\<open>int(x)\<close>. On a string Python parses a decimal literal; that parser is a builtin
  outside this repository and is the parameter \<open>int_of_str\<close> (\<open>None\<close> when it raises).
\<close>

fun py_int :: "(string \<Rightarrow> int option) \<Rightarrow> json \<Rightarrow> error + int" where
  "py_int int_of_str (JInt n) = Inr n"
| "py_int int_of_str (JBool b) = Inr (if b then 1 else 0)"
| "py_int int_of_str (JStr s) =
     (case int_of_str s of None \<Rightarrow> Inl ValueError | Some n \<Rightarrow> Inr n)"
| "py_int int_of_str _ = Inl TypeError"

text \<open>\<^verbatim>\<open>a >= b\<close> for an integer \<open>a\<close>: defined against integers and booleans only.\<close>

fun py_ge :: "int \<Rightarrow> json \<Rightarrow> error + bool" where
  "py_ge a (JInt n) = Inr (a \<ge> n)"
| "py_ge a (JBool b) = Inr (a \<ge> (if b then 1 else 0))"
| "py_ge a _ = Inl TypeError"

text \<open>\<^verbatim>\<open>str(n)\<close> of an integer: its decimal digits, with a minus sign when negative.\<close>

fun str_nat :: "nat \<Rightarrow> string" where
  "str_nat n =
     (if n < 10 then [''0123456789'' ! n]
      else str_nat (n div 10) @ [''0123456789'' ! (n mod 10)])"

declare str_nat.simps [simp del]

definition str_int :: "int \<Rightarrow> string" where
  "str_int i = (if i < 0 then CHR ''-'' # str_nat (nat (- i)) else str_nat (nat i))"

text \<open>\<^verbatim>\<open>sep.join(parts)\<close>.\<close>

fun join :: "string \<Rightarrow> string list \<Rightarrow> string" where
  "join sep [] = []"
| "join sep [p] = p"
| "join sep (p # q # ps) = p @ sep @ join sep (q # ps)"

section \<open>The duration humanizer (app.py)\<close>

text \<open>
  \<^verbatim>\<open>format_seconds_human\<close>: \<^verbatim>\<open>divmod\<close> is floor division and its remainder, which
  \<open>div\<close> and \<open>mod\<close> on \<open>int\<close> are as well.
\<close>

definition format_seconds_human :: "(string \<Rightarrow> int option) \<Rightarrow> json \<Rightarrow> error + json" where
  "format_seconds_human int_of_str seconds =
     (if seconds = JNull then Inr JNull
      else case py_int int_of_str seconds of
        Inl e \<Rightarrow> Inl e
      | Inr s \<Rightarrow>
          (let days = s div 86400; rem = s mod 86400;
               hours = rem div 3600; rem' = rem mod 3600;
               minutes = rem' div 60;
               parts =
                 (if days \<noteq> 0
                  then [str_int days @ '' day'' @ (if days > 1 then ''s'' else '''')] else []) @
                 (if hours \<noteq> 0
                  then [str_int hours @ '' hour'' @ (if hours > 1 then ''s'' else '''')] else []) @
                 (if minutes \<noteq> 0
                  then [str_int minutes @ '' minute'' @ (if minutes > 1 then ''s'' else '''')]
                  else [])
           in Inr (JStr (if parts \<noteq> [] then join '', '' parts else ''0 minutes''))))"

section \<open>Sequencing computations that may raise\<close>

definition err_bind :: "error + 'a \<Rightarrow> ('a \<Rightarrow> error + 'b) \<Rightarrow> error + 'b" where
  "err_bind m f = (case m of Inl e \<Rightarrow> Inl e | Inr x \<Rightarrow> f x)"

text \<open>A list comprehension whose element expression may raise: the first exception wins.\<close>

fun map_err :: "('a \<Rightarrow> error + 'b) \<Rightarrow> 'a list \<Rightarrow> error + 'b list" where
  "map_err f [] = Inr []"
| "map_err f (x # xs) =
     (case f x of
        Inl e \<Rightarrow> Inl e
      | Inr y \<Rightarrow> (case map_err f xs of Inl e \<Rightarrow> Inl e | Inr ys \<Rightarrow> Inr (y # ys)))"

section \<open>The upstream server\<close>

text \<open>
  A GET request as \<^verbatim>\<open>requests.get\<close> receives it: the URL, the query parameters in the
  order the program lists them (their percent-encoding is the library's and is not
  modelled), the credentials, the headers and the timeout in seconds. \<open>Url s\<close> is a
  literal address; \<open>WorklogUrl b k\<close> stands for
  \<^verbatim>\<open>b + f"/rest/api/2/issue/{k}/worklog"\<close>, kept as its parts.
\<close>

datatype url = Url string | WorklogUrl string json

record request =
  req_url :: url
  req_params :: "(string \<times> string) list"
  req_auth :: "string \<times> string"
  req_headers :: "(string \<times> string) list"
  req_timeout :: "int option"

text \<open>
  A response: \<open>resp_json\<close> is what \<^verbatim>\<open>resp.json()\<close> returns, \<open>None\<close> when the text is not
  JSON and the call raises.
\<close>

record response =
  status_code :: int
  resp_text :: string
  resp_json :: "json option"

datatype reply = Reply response | NoReply

text \<open>
  The upstream answers a request given the requests sent before it, oldest first: it may
  answer the same request differently each time.
\<close>

type_synonym upstream = "request list \<Rightarrow> request \<Rightarrow> reply"

text \<open>\<^verbatim>\<open>s.rstrip('/')\<close>.\<close>

definition rstrip_slash :: "string \<Rightarrow> string" where
  "rstrip_slash s = rev (dropWhile (\<lambda>c. c = CHR ''/'') (rev s))"

section \<open>The paginated fetcher (app.py)\<close>

definition search_request ::
  "string \<Rightarrow> string \<times> string \<Rightarrow> string \<Rightarrow> string \<Rightarrow> int \<Rightarrow> int \<Rightarrow> int option \<Rightarrow> request" where
  "search_request search_url auth jql flds max_results start_at tmo =
     \<lparr> req_url = Url search_url,
       req_params = [(''jql'', jql), (''fields'', flds),
                     (''maxResults'', str_int max_results), (''startAt'', str_int start_at)],
       req_auth = auth,
       req_headers = [(''Accept'', ''application/json'')],
       req_timeout = tmo \<rparr>"

text \<open>
  The \<^verbatim>\<open>while True\<close> loop of \<^verbatim>\<open>fetch_all_issues\<close>, on its variables \<open>issues\<close>,
  \<open>start_at\<close> and \<open>tot\<close> (the source's \<^verbatim>\<open>total\<close>, with \<open>JNull\<close> for \<^verbatim>\<open>None\<close>) and
  on the requests sent so far. It returns the outcome and the requests sent; it is
  \<open>None\<close> when the loop never ends. \<^verbatim>\<open>issues.extend(batch)\<close> appends the elements
  of \<open>batch\<close>, and \<^verbatim>\<open>len(batch)\<close> is their number. \<open>flds\<close> is the source's
  \<^verbatim>\<open>fields\<close>.
\<close>

partial_function (option) fetch_all_issues_loop ::
  "upstream \<Rightarrow> string \<Rightarrow> string \<times> string \<Rightarrow> string \<Rightarrow> string \<Rightarrow> int \<Rightarrow>
   json list \<Rightarrow> int \<Rightarrow> json \<Rightarrow> request list \<Rightarrow> ((error + json list) \<times> request list) option"
where
  "fetch_all_issues_loop up search_url auth jql flds max_results issues start_at tot sent =
     (case up sent (search_request search_url auth jql flds max_results start_at (Some 30)) of
        NoReply \<Rightarrow>
          Some (Inl RequestException,
                sent @ [search_request search_url auth jql flds max_results start_at (Some 30)])
      | Reply resp \<Rightarrow>
          if status_code resp \<ge> 400
          then Some (Inl (flask_abort (status_code resp) (resp_text resp)),
                sent @ [search_request search_url auth jql flds max_results start_at (Some 30)])
          else
            (case (case resp_json resp of
                     None \<Rightarrow> Inl JSONDecodeError
                   | Some data \<Rightarrow>
                       err_bind (py_get data ''issues'' (JList [])) (\<lambda>batch.
                       err_bind (py_iter batch) (\<lambda>items.
                       err_bind (if tot = JNull
                                 then py_get data ''total'' (JInt (int (length items)))
                                 else Inr tot) (\<lambda>tot'.
                       err_bind (py_ge (start_at + int (length items)) tot') (\<lambda>stop.
                       Inr (items, tot', stop)))))) of
               Inl e \<Rightarrow>
                 Some (Inl e,
                   sent @ [search_request search_url auth jql flds max_results start_at (Some 30)])
             | Inr (items, tot', stop) \<Rightarrow>
                 if stop
                 then Some (Inr (issues @ items),
                   sent @ [search_request search_url auth jql flds max_results start_at (Some 30)])
                 else fetch_all_issues_loop up search_url auth jql flds max_results
                   (issues @ items) (start_at + int (length items)) tot'
                   (sent @ [search_request search_url auth jql flds max_results start_at
                              (Some 30)])))"

declare fetch_all_issues_loop.simps [code]

definition fetch_all_issues ::
  "upstream \<Rightarrow> string \<Rightarrow> string \<times> string \<Rightarrow> string \<Rightarrow> string \<Rightarrow> int \<Rightarrow> request list \<Rightarrow>
   ((error + json list) \<times> request list) option" where
  "fetch_all_issues up base_url auth jql flds max_results sent =
     fetch_all_issues_loop up (rstrip_slash base_url @ ''/rest/api/2/search'') auth jql flds
       max_results [] 0 JNull sent"

section \<open>The work-log fetcher (app.py)\<close>

definition worklog_request ::
  "string \<Rightarrow> string \<times> string \<Rightarrow> json \<Rightarrow> int \<Rightarrow> int \<Rightarrow> request" where
  "worklog_request base auth issue_key sa max_results =
     \<lparr> req_url = WorklogUrl base issue_key,
       req_params = [(''startAt'', str_int sa), (''maxResults'', str_int max_results)],
       req_auth = auth,
       req_headers = [(''Accept'', ''application/json'')],
       req_timeout = Some 30 \<rparr>"

text \<open>
  The loop of \<^verbatim>\<open>fetch_worklogs\<close> on \<open>logs_all\<close> and \<open>sa\<close>; \<open>base\<close> is
  \<^verbatim>\<open>base_url.rstrip('/')\<close>. The total is read from every response.
\<close>

partial_function (option) fetch_worklogs_loop ::
  "upstream \<Rightarrow> string \<Rightarrow> string \<times> string \<Rightarrow> json \<Rightarrow> int \<Rightarrow>
   json list \<Rightarrow> int \<Rightarrow> request list \<Rightarrow> ((error + json list) \<times> request list) option"
where
  "fetch_worklogs_loop up base auth issue_key max_results logs_all sa sent =
     (case up sent (worklog_request base auth issue_key sa max_results) of
        NoReply \<Rightarrow>
          Some (Inl RequestException,
                sent @ [worklog_request base auth issue_key sa max_results])
      | Reply resp \<Rightarrow>
          if status_code resp \<ge> 400
          then Some (Inl (flask_abort_worklog (status_code resp) issue_key (resp_text resp)),
                sent @ [worklog_request base auth issue_key sa max_results])
          else
            (case (case resp_json resp of
                     None \<Rightarrow> Inl JSONDecodeError
                   | Some data \<Rightarrow>
                       err_bind (py_get data ''worklogs'' (JList [])) (\<lambda>logs.
                       err_bind (py_get data ''total'' (JInt 0)) (\<lambda>tot.
                       err_bind (py_iter logs) (\<lambda>items.
                       err_bind (py_ge (sa + int (length items)) tot) (\<lambda>stop.
                       Inr (items, stop)))))) of
               Inl e \<Rightarrow>
                 Some (Inl e, sent @ [worklog_request base auth issue_key sa max_results])
             | Inr (items, stop) \<Rightarrow>
                 if stop
                 then Some (Inr (logs_all @ items),
                   sent @ [worklog_request base auth issue_key sa max_results])
                 else fetch_worklogs_loop up base auth issue_key max_results
                   (logs_all @ items) (sa + int (length items))
                   (sent @ [worklog_request base auth issue_key sa max_results])))"

declare fetch_worklogs_loop.simps [code]

definition fetch_worklogs ::
  "upstream \<Rightarrow> string \<Rightarrow> string \<times> string \<Rightarrow> json \<Rightarrow> int \<Rightarrow> int \<Rightarrow> request list \<Rightarrow>
   ((error + json list) \<times> request list) option" where
  "fetch_worklogs up base_url auth issue_key start_at max_results sent =
     fetch_worklogs_loop up (rstrip_slash base_url) auth issue_key max_results [] start_at sent"

section \<open>The projector (app.py)\<close>

text \<open>\<^verbatim>\<open>(f.get(k) or {}).get(n)\<close>.\<close>

definition get_in :: "json \<Rightarrow> string \<Rightarrow> string \<Rightarrow> error + json" where
  "get_in f k n = err_bind (py_get f k JNull) (\<lambda>v. py_get (py_or v (JObj [])) n JNull)"

text \<open>\<^verbatim>\<open>[c.get("name") for c in (f.get("components") or [])]\<close>.\<close>

definition component_names :: "json \<Rightarrow> error + json" where
  "component_names f =
     err_bind (py_get f ''components'' JNull) (\<lambda>v.
     err_bind (py_iter (py_or v (JList []))) (\<lambda>cs.
     err_bind (map_err (\<lambda>c. py_get c ''name'' JNull) cs) (\<lambda>names.
     Inr (JList names))))"

text \<open>
  The dictionary \<open>item\<close> that one iteration of \<^verbatim>\<open>project_issues\<close> builds from the raw
  issue \<open>it\<close> (lines 71 to 103), as the list of its entries.
\<close>

definition issue_item :: "(string \<Rightarrow> int option) \<Rightarrow> json \<Rightarrow> error + (string \<times> json) list" where
  "issue_item int_of_str it =
     err_bind (py_get it ''fields'' (JObj [])) (\<lambda>f.
     err_bind (py_get f ''timeoriginalestimate'' JNull) (\<lambda>original.
     err_bind (py_get f ''timeestimate'' JNull) (\<lambda>remaining.
     err_bind (py_get f ''timespent'' JNull) (\<lambda>spent.
     err_bind (py_get f ''aggregatetimeoriginalestimate'' JNull) (\<lambda>agg_orig.
     err_bind (py_get f ''aggregatetimeestimate'' JNull) (\<lambda>agg_rem.
     err_bind (py_get f ''aggregatetimespent'' JNull) (\<lambda>agg_sp.
     err_bind (py_get it ''key'' JNull) (\<lambda>key.
     err_bind (py_get f ''summary'' JNull) (\<lambda>summary.
     err_bind (get_in f ''status'' ''name'') (\<lambda>status.
     err_bind (get_in f ''resolution'' ''name'') (\<lambda>resolution.
     err_bind (py_get f ''resolutiondate'' JNull) (\<lambda>resolutiondate.
     err_bind (py_get f ''updated'' JNull) (\<lambda>updated.
     err_bind (get_in f ''assignee'' ''displayName'') (\<lambda>assignee.
     err_bind (py_get f ''labels'' JNull) (\<lambda>labels.
     err_bind (component_names f) (\<lambda>components.
     err_bind (format_seconds_human int_of_str original) (\<lambda>original_human.
     err_bind (format_seconds_human int_of_str remaining) (\<lambda>remaining_human.
     err_bind (format_seconds_human int_of_str spent) (\<lambda>spent_human.
     err_bind (format_seconds_human int_of_str agg_orig) (\<lambda>agg_orig_human.
     err_bind (format_seconds_human int_of_str agg_rem) (\<lambda>agg_rem_human.
     err_bind (format_seconds_human int_of_str agg_sp) (\<lambda>agg_sp_human.
     Inr [(''key'', key),
          (''summary'', summary),
          (''status'', status),
          (''resolution'', resolution),
          (''resolutiondate'', resolutiondate),
          (''updated'', updated),
          (''assignee'', assignee),
          (''labels'', labels),
          (''components'', components),
          (''time'', JObj
             [(''originalEstimateSeconds'', original),
              (''originalEstimateHuman'', original_human),
              (''remainingEstimateSeconds'', remaining),
              (''remainingEstimateHuman'', remaining_human),
              (''timeSpentSeconds'', spent),
              (''timeSpentHuman'', spent_human),
              (''aggregateOriginalEstimateSeconds'', agg_orig),
              (''aggregateOriginalEstimateHuman'', agg_orig_human),
              (''aggregateRemainingEstimateSeconds'', agg_rem),
              (''aggregateRemainingEstimateHuman'', agg_rem_human),
              (''aggregateTimeSpentSeconds'', agg_sp),
              (''aggregateTimeSpentHuman'', agg_sp_human)])]))))))))))))))))))))))"

text \<open>
  One entry of \<^verbatim>\<open>item["worklogs"]\<close> (lines 109 to 115). \<^verbatim>\<open>a or b\<close> evaluates \<open>b\<close> only
  when \<open>a\<close> is falsy; \<^verbatim>\<open>isinstance(x, str)\<close> holds of strings alone.
\<close>

definition project_worklog :: "(string \<Rightarrow> int option) \<Rightarrow> json \<Rightarrow> error + json" where
  "project_worklog int_of_str wl =
     err_bind (get_in wl ''author'' ''displayName'') (\<lambda>author.
     err_bind (py_get wl ''started'' JNull) (\<lambda>started.
     err_bind (py_get wl ''timeSpentSeconds'' JNull) (\<lambda>seconds.
     err_bind (py_get wl ''timeSpent'' JNull) (\<lambda>time_spent.
     err_bind (if py_truthy time_spent then Inr time_spent
               else format_seconds_human int_of_str seconds) (\<lambda>human.
     err_bind (py_get wl ''comment'' JNull) (\<lambda>comment.
     Inr (JObj
       [(''author'', author),
        (''started'', started),
        (''timeSpentSeconds'', seconds),
        (''timeSpentHuman'', human),
        (''comment'', case comment of JStr s \<Rightarrow> JStr s | _ \<Rightarrow> JNull)])))))))"

text \<open>
  One iteration of the loop of \<^verbatim>\<open>project_issues\<close>: the item, and with
  \<open>include_worklogs\<close> the work-logs fetched for the issue's key and stored under
  \<open>worklogs\<close>, a key the item does not have yet.
\<close>

definition project_issue ::
  "upstream \<Rightarrow> (string \<Rightarrow> int option) \<Rightarrow> json \<Rightarrow> string \<Rightarrow> string \<times> string \<Rightarrow> bool \<Rightarrow>
   request list \<Rightarrow> ((error + json) \<times> request list) option" where
  "project_issue up int_of_str it base_url auth include_worklogs sent =
     (case issue_item int_of_str it of
        Inl e \<Rightarrow> Some (Inl e, sent)
      | Inr item \<Rightarrow>
          if include_worklogs
          then (case py_get it ''key'' JNull of
                  Inl e \<Rightarrow> Some (Inl e, sent)
                | Inr key \<Rightarrow>
                    (case fetch_worklogs up base_url auth key 0 100 sent of
                       None \<Rightarrow> None
                     | Some (Inl e, sent') \<Rightarrow> Some (Inl e, sent')
                     | Some (Inr logs_all, sent') \<Rightarrow>
                         (case map_err (project_worklog int_of_str) logs_all of
                            Inl e \<Rightarrow> Some (Inl e, sent')
                          | Inr wls \<Rightarrow>
                              Some (Inr (JObj (item @ [(''worklogs'', JList wls)])), sent'))))
          else Some (Inr (JObj item), sent))"

text \<open>\<^verbatim>\<open>project_issues\<close>: the items in the order of the issues; the first exception ends
  the run.\<close>

fun project_issues ::
  "upstream \<Rightarrow> (string \<Rightarrow> int option) \<Rightarrow> json list \<Rightarrow> string \<Rightarrow> string \<times> string \<Rightarrow> bool \<Rightarrow>
   request list \<Rightarrow> ((error + json list) \<times> request list) option" where
  "project_issues up int_of_str [] base_url auth include_worklogs sent = Some (Inr [], sent)"
| "project_issues up int_of_str (it # its) base_url auth include_worklogs sent =
     (case project_issue up int_of_str it base_url auth include_worklogs sent of
        None \<Rightarrow> None
      | Some (Inl e, sent') \<Rightarrow> Some (Inl e, sent')
      | Some (Inr item, sent') \<Rightarrow>
          (case project_issues up int_of_str its base_url auth include_worklogs sent' of
             None \<Rightarrow> None
           | Some (Inl e, sent'') \<Rightarrow> Some (Inl e, sent'')
           | Some (Inr out, sent'') \<Rightarrow> Some (Inr (item # out), sent'')))"

section \<open>The export endpoint (app.py)\<close>

text \<open>
  \<^verbatim>\<open>str.strip()\<close> removes white space at both ends. Of the characters below 256 Python
  counts as white space the codes 9 to 13, 28 to 32, 133 and 160.
\<close>

definition py_isspace :: "char \<Rightarrow> bool" where
  "py_isspace c = (of_char c \<in> {9, 10, 11, 12, 13, 28, 29, 30, 31, 32, 133, 160 :: nat})"

definition py_strip :: "string \<Rightarrow> string" where
  "py_strip s = rev (dropWhile py_isspace (rev (dropWhile py_isspace s)))"

text \<open>\<^verbatim>\<open>request.form.get(k, "")\<close>.\<close>

definition form_get :: "(string \<rightharpoonup> string) \<Rightarrow> string \<Rightarrow> string" where
  "form_get form k = (case form k of None \<Rightarrow> '''' | Some v \<Rightarrow> v)"

text \<open>The query of the endpoint (lines 136 to 147).\<close>

definition export_jql :: "bool \<Rightarrow> string \<Rightarrow> string" where
  "export_jql use_updated project =
     (if use_updated
      then ''project = '' @ project @ '' AND statusCategory != Done '' @
           ''AND updated >= startOfMonth(-1) AND updated < startOfMonth() '' @
           ''ORDER BY updated ASC''
      else ''project = '' @ project @ '' AND resolution IS NOT EMPTY '' @
           ''AND resolutiondate >= startOfMonth(-1) AND resolutiondate < startOfMonth() '' @
           ''ORDER BY resolutiondate ASC'')"

definition export_fields :: string where
  "export_fields = join '',''
     [''key'', ''summary'', ''status'', ''resolution'', ''resolutiondate'', ''updated'',
      ''assignee'', ''labels'', ''components'',
      ''timeoriginalestimate'', ''timeestimate'', ''timespent'',
      ''aggregatetimeoriginalestimate'', ''aggregatetimeestimate'', ''aggregatetimespent'']"

text \<open>
  The response of a successful export: \<open>payload\<close> is the list that \<^verbatim>\<open>json.dumps\<close>
  serialises (the serialisation is the library's), \<open>content_disposition\<close> the header.
\<close>

record export_response =
  payload :: "json list"
  mimetype :: string
  content_disposition :: string

text \<open>
  \<^verbatim>\<open>Response(..., headers={...})\<close> of Werkzeug refuses a header value that holds a
  carriage return or a line feed: it raises \<^verbatim>\<open>ValueError\<close>.
\<close>

definition has_newline :: "string \<Rightarrow> bool" where
  "has_newline v = list_ex (\<lambda>c. c = CHR 0x0A \<or> c = CHR 0x0D) v"

text \<open>
  The endpoint \<^verbatim>\<open>export\<close> (lines 124 to 166). The file name holds the project key as
  the form gave it, stripped at both ends only.
\<close>

definition export ::
  "upstream \<Rightarrow> (string \<Rightarrow> int option) \<Rightarrow> (string \<rightharpoonup> string) \<Rightarrow> request list \<Rightarrow>
   ((error + export_response) \<times> request list) option" where
  "export up int_of_str form sent =
     (let base_url = py_strip (form_get form ''baseUrl'');
          project = py_strip (form_get form ''projectKey'');
          username = py_strip (form_get form ''username'');
          password = form_get form ''password'';
          use_updated = (form ''useUpdated'' = Some ''on'')
      in if \<not> (base_url \<noteq> [] \<and> project \<noteq> [] \<and> username \<noteq> [] \<and> password \<noteq> [])
         then Some (Inl (flask_abort 400 ''Parametres manquants''), sent)
         else
           (case fetch_all_issues up base_url (username, password)
                   (export_jql use_updated project) export_fields 100 sent of
              None \<Rightarrow> None
            | Some (Inl e, sent') \<Rightarrow> Some (Inl e, sent')
            | Some (Inr issues, sent') \<Rightarrow>
                (case project_issues up int_of_str issues base_url (username, password) True
                        sent' of
                   None \<Rightarrow> None
                 | Some (Inl e, sent'') \<Rightarrow> Some (Inl e, sent'')
                 | Some (Inr projected, sent'') \<Rightarrow>
                     (let filename = ''jira_'' @ project @ ''_prev_month'' @
                            (if use_updated then ''_updated'' else '''') @ ''.json'';
                          header = ''attachment; filename='' @ [CHR 0x22] @ filename @
                            [CHR 0x22]
                      in if has_newline header
                         then Some (Inl ValueError, sent'')
                         else Some (Inr \<lparr> payload = projected,
                                          mimetype = ''application/json'',
                                          content_disposition = header \<rparr>,
                                    sent'')))))"

section \<open>The command-line tool (get\_jira.py)\<close>

text \<open>
  The functions of get\_jira.py carry the prefix \<open>cli\<close> where app.py has a function of
  the same name.
\<close>

definition build_search_url :: "string \<Rightarrow> string" where
  "build_search_url base_url = rstrip_slash base_url @ ''/rest/api/2/search''"

text \<open>
  \<^verbatim>\<open>resp.raise_for_status()\<close> raises for a status from 400 to 599. The loop of
  \<^verbatim>\<open>fetch_all_issues\<close> then writes a line to the error stream \<open>err\<close> and raises the
  exception again. The request has no timeout.
\<close>

partial_function (option) cli_fetch_all_issues_loop ::
  "upstream \<Rightarrow> string \<Rightarrow> string \<times> string \<Rightarrow> string \<Rightarrow> string \<Rightarrow> int \<Rightarrow>
   json list \<Rightarrow> int \<Rightarrow> json \<Rightarrow> request list \<Rightarrow> string list \<Rightarrow>
   ((error + json list) \<times> request list \<times> string list) option"
where
  "cli_fetch_all_issues_loop up search_url auth jql flds max_results issues start_at tot sent err =
     (case up sent (search_request search_url auth jql flds max_results start_at None) of
        NoReply \<Rightarrow>
          Some (Inl RequestException,
                sent @ [search_request search_url auth jql flds max_results start_at None], err)
      | Reply resp \<Rightarrow>
          if 400 \<le> status_code resp \<and> status_code resp < 600
          then Some (Inl (HTTPError (status_code resp) (resp_text resp)),
                sent @ [search_request search_url auth jql flds max_results start_at None],
                err @ [''HTTP error '' @ str_int (status_code resp) @ '': '' @ resp_text resp @
                       [CHR 0x0A]])
          else
            (case (case resp_json resp of
                     None \<Rightarrow> Inl JSONDecodeError
                   | Some data \<Rightarrow>
                       err_bind (py_get data ''issues'' (JList [])) (\<lambda>batch.
                       err_bind (py_iter batch) (\<lambda>items.
                       err_bind (if tot = JNull
                                 then py_get data ''total'' (JInt (int (length items)))
                                 else Inr tot) (\<lambda>tot'.
                       err_bind (py_ge (start_at + int (length items)) tot') (\<lambda>stop.
                       Inr (items, tot', stop)))))) of
               Inl e \<Rightarrow>
                 Some (Inl e,
                   sent @ [search_request search_url auth jql flds max_results start_at None], err)
             | Inr (items, tot', stop) \<Rightarrow>
                 if stop
                 then Some (Inr (issues @ items),
                   sent @ [search_request search_url auth jql flds max_results start_at None], err)
                 else cli_fetch_all_issues_loop up search_url auth jql flds max_results
                   (issues @ items) (start_at + int (length items)) tot'
                   (sent @ [search_request search_url auth jql flds max_results start_at None])
                   err))"

declare cli_fetch_all_issues_loop.simps [code]

definition cli_fetch_all_issues ::
  "upstream \<Rightarrow> string \<Rightarrow> string \<times> string \<Rightarrow> string \<Rightarrow> string \<Rightarrow> int \<Rightarrow>
   request list \<Rightarrow> string list \<Rightarrow>
   ((error + json list) \<times> request list \<times> string list) option" where
  "cli_fetch_all_issues up search_url auth jql flds max_results sent err =
     cli_fetch_all_issues_loop up search_url auth jql flds max_results [] 0 JNull sent err"

text \<open>The dictionary one iteration of \<^verbatim>\<open>project_issues\<close> appends (lines 74 to 85).\<close>

definition cli_project_issue :: "json \<Rightarrow> error + json" where
  "cli_project_issue it =
     err_bind (py_get it ''fields'' (JObj [])) (\<lambda>f.
     err_bind (py_get it ''key'' JNull) (\<lambda>key.
     err_bind (py_get f ''summary'' JNull) (\<lambda>summary.
     err_bind (get_in f ''status'' ''name'') (\<lambda>status.
     err_bind (get_in f ''resolution'' ''name'') (\<lambda>resolution.
     err_bind (py_get f ''resolutiondate'' JNull) (\<lambda>resolutiondate.
     err_bind (py_get f ''updated'' JNull) (\<lambda>updated.
     err_bind (get_in f ''assignee'' ''displayName'') (\<lambda>assignee.
     err_bind (py_get f ''labels'' JNull) (\<lambda>labels.
     err_bind (component_names f) (\<lambda>components.
     Inr (JObj
       [(''key'', key),
        (''summary'', summary),
        (''status'', status),
        (''resolution'', resolution),
        (''resolutiondate'', resolutiondate),
        (''updated'', updated),
        (''assignee'', assignee),
        (''labels'', labels),
        (''components'', components)])))))))))))"

definition cli_project_issues :: "json list \<Rightarrow> error + json list" where
  "cli_project_issues issues = map_err cli_project_issue issues"

text \<open>The query \<^verbatim>\<open>main\<close> builds (lines 105 to 116).\<close>

definition main_jql :: "bool \<Rightarrow> string \<Rightarrow> string" where
  "main_jql use_updated project =
     (if use_updated
      then ''project = '' @ project @ '' AND status NOT IN (Open) '' @
           ''AND updated >= startOfMonth(-1) AND updated < startOfMonth() '' @
           ''ORDER BY updated ASC''
      else ''project = '' @ project @ '' AND resolution IS NOT EMPTY '' @
           ''AND resolutiondate >= startOfMonth(-1) AND resolutiondate < startOfMonth() '' @
           ''ORDER BY resolutiondate ASC'')"

section \<open>The humanizer as the specification words it\<close>

text \<open>
  One component of the output: the count, the unit, and a trailing \<open>s\<close> exactly when
  the count exceeds 1.
\<close>

definition unit_text :: "int \<Rightarrow> string \<Rightarrow> string" where
  "unit_text n u = str_int n @ '' '' @ u @ (if n > 1 then ''s'' else '''')"

text \<open>
  The text for \<open>d\<close> days, \<open>h\<close> hours and \<open>m\<close> minutes: the non-zero components in
  day-hour-minute order, joined with a comma and a space; \<open>0 minutes\<close> when all are zero.
\<close>

definition humanize_spec :: "int \<Rightarrow> int \<Rightarrow> int \<Rightarrow> string" where
  "humanize_spec d h m =
     (let comps = filter (\<lambda>c. fst c \<noteq> 0) [(d, ''day''), (h, ''hour''), (m, ''minute'')]
      in if comps = [] then ''0 minutes''
         else join '', '' (map (\<lambda>c. unit_text (fst c) (snd c)) comps))"

section \<open>Upstreams that serve pages\<close>

text \<open>
  A reply that is a page of search results: a status below 400 and a JSON object whose
  \<open>issues\<close> entry is a list. \<open>page_of\<close> gives the list and the \<open>total\<close> entry, if
  the object has one.
\<close>

definition page_of :: "reply \<Rightarrow> (json list \<times> json option) option" where
  "page_of r =
     (case r of
        NoReply \<Rightarrow> None
      | Reply resp \<Rightarrow>
          if status_code resp \<ge> 400 then None
          else (case resp_json resp of
                  Some (JObj d) \<Rightarrow>
                    (case map_of d ''issues'' of
                       Some (JList b) \<Rightarrow> Some (b, map_of d ''total'')
                     | _ \<Rightarrow> None)
                | _ \<Rightarrow> None))"

text \<open>
  The upstream serves the pages \<open>ps\<close> one after the other: asked \<open>mk k\<close> after the
  requests sent so far, it answers the batch \<open>b\<close> with total \<open>t\<close>, for each \<open>(k, b, t)\<close>
  of \<open>ps\<close> in turn.
\<close>

fun serves_pages ::
  "upstream \<Rightarrow> request list \<Rightarrow> (int \<Rightarrow> request) \<Rightarrow> (int \<times> json list \<times> json option) list \<Rightarrow>
   bool" where
  "serves_pages up sent mk [] = True"
| "serves_pages up sent mk ((k, b, t) # ps) =
     (page_of (up sent (mk k)) = Some (b, t) \<and> serves_pages up (sent @ [mk k]) mk ps)"

text \<open>The value of the loop's total after a page with batch \<open>b\<close> and total entry \<open>t\<close>.\<close>

definition first_total :: "json \<Rightarrow> json list \<Rightarrow> json option \<Rightarrow> json" where
  "first_total tot b t =
     (if tot = JNull then (case t of None \<Rightarrow> JInt (int (length b)) | Some v \<Rightarrow> v) else tot)"

text \<open>
  An upstream with 250 records that serves 100 per page: the page at offset 200 holds the
  last 50. Every page reports the total.
\<close>

definition paged_upstream :: upstream where
  "paged_upstream sent req =
     Reply \<lparr> status_code = 200, resp_text = '''',
             resp_json = Some (JObj
               [(''issues'', JList (replicate
                   (if map_of (req_params req) ''startAt'' = Some ''200'' then 50 else 100)
                   (JObj []))),
                (''total'', JInt 250)]) \<rparr>"


section \<open>Raw and enriched records\<close>

text \<open>The value of an entry of a dictionary, null when the dictionary has no such key.\<close>

definition field_or_null :: "(string \<times> json) list \<Rightarrow> string \<Rightarrow> json" where
  "field_or_null f k = (case map_of f k of None \<Rightarrow> JNull | Some v \<Rightarrow> v)"

text \<open>The fields map of a raw issue; empty when the issue has none.\<close>

definition fields_of :: "json \<Rightarrow> (string \<times> json) list" where
  "fields_of it =
     (case it of
        JObj kvs \<Rightarrow> (case map_of kvs ''fields'' of Some (JObj f) \<Rightarrow> f | _ \<Rightarrow> [])
      | _ \<Rightarrow> [])"

text \<open>
  A Human value fits its Seconds value: null exactly when the seconds are null, and a
  non-empty string otherwise.
\<close>

definition human_of :: "json \<Rightarrow> json \<Rightarrow> bool" where
  "human_of secs human =
     (if secs = JNull then human = JNull
      else (case human of JStr s \<Rightarrow> s \<noteq> [] | _ \<Rightarrow> False))"

text \<open>The six time-tracking fields: the raw field, its Seconds key and its Human key.\<close>

definition time_keys :: "(string \<times> string \<times> string) list" where
  "time_keys =
     [(''timeoriginalestimate'', ''originalEstimateSeconds'', ''originalEstimateHuman''),
      (''timeestimate'', ''remainingEstimateSeconds'', ''remainingEstimateHuman''),
      (''timespent'', ''timeSpentSeconds'', ''timeSpentHuman''),
      (''aggregatetimeoriginalestimate'', ''aggregateOriginalEstimateSeconds'',
       ''aggregateOriginalEstimateHuman''),
      (''aggregatetimeestimate'', ''aggregateRemainingEstimateSeconds'',
       ''aggregateRemainingEstimateHuman''),
      (''aggregatetimespent'', ''aggregateTimeSpentSeconds'', ''aggregateTimeSpentHuman'')]"

text \<open>
  The time block of the enriched record \<open>item\<close> of the raw issue \<open>it\<close>: each Seconds
  entry is the raw field, and each Human entry fits it.
\<close>

definition time_block_ok :: "json \<Rightarrow> json \<Rightarrow> bool" where
  "time_block_ok it item =
     (case item of
        JObj kvs \<Rightarrow>
          (case map_of kvs ''time'' of
             Some (JObj tb) \<Rightarrow>
               list_all
                 (\<lambda>(raw, sk, hk).
                    map_of tb sk = Some (field_or_null (fields_of it) raw) \<and>
                    (case map_of tb hk of
                       Some human \<Rightarrow> human_of (field_or_null (fields_of it) raw) human
                     | None \<Rightarrow> False))
                 time_keys
           | _ \<Rightarrow> False)
      | _ \<Rightarrow> False)"

text \<open>Shapes of the values of a raw issue.\<close>

definition object_or_null :: "json \<Rightarrow> bool" where
  "object_or_null v = (case v of JNull \<Rightarrow> True | JObj _ \<Rightarrow> True | _ \<Rightarrow> False)"


definition seconds_shape :: "json \<Rightarrow> bool" where
  "seconds_shape v = (case v of JNull \<Rightarrow> True | JInt _ \<Rightarrow> True | _ \<Rightarrow> False)"




section \<open>Sample records\<close>

text \<open>
  A raw issue with a status object, a null resolution, one component and three of the six
  time-tracking fields, and an upstream that serves one work-log for every issue.
\<close>

definition demo_issue :: json where
  "demo_issue = JObj
     [(''key'', JStr ''DEMO-1''),
      (''fields'', JObj
         [(''summary'', JStr ''Fix login''),
          (''status'', JObj [(''name'', JStr ''Done'')]),
          (''resolution'', JNull),
          (''components'', JList [JObj [(''name'', JStr ''web'')]]),
          (''timeoriginalestimate'', JInt 7200),
          (''timespent'', JInt 0),
          (''aggregatetimespent'', JInt 90000)])]"

definition worklog_upstream :: upstream where
  "worklog_upstream sent req =
     Reply \<lparr> status_code = 200, resp_text = '''',
             resp_json = Some (JObj
               [(''worklogs'', JList
                  [JObj [(''author'', JObj [(''displayName'', JStr ''Ada'')]),
                         (''started'', JStr ''2024-05-02T09:00:00.000+0000''),
                         (''timeSpentSeconds'', JInt 5400),
                         (''comment'', JStr ''review'')]]),
                (''total'', JInt 1)]) \<rparr>"

text \<open>The enriched record of \<open>demo_issue\<close> against \<open>worklog_upstream\<close>.\<close>

definition demo_item :: json where
  "demo_item = JObj
     [(''key'', JStr ''DEMO-1''), (''summary'', JStr ''Fix login''),
      (''status'', JStr ''Done''), (''resolution'', JNull),
      (''resolutiondate'', JNull), (''updated'', JNull),
      (''assignee'', JNull), (''labels'', JNull),
      (''components'', JList [JStr ''web'']),
      (''time'', JObj
         [(''originalEstimateSeconds'', JInt 7200),
          (''originalEstimateHuman'', JStr ''2 hours''),
          (''remainingEstimateSeconds'', JNull),
          (''remainingEstimateHuman'', JNull),
          (''timeSpentSeconds'', JInt 0),
          (''timeSpentHuman'', JStr ''0 minutes''),
          (''aggregateOriginalEstimateSeconds'', JNull),
          (''aggregateOriginalEstimateHuman'', JNull),
          (''aggregateRemainingEstimateSeconds'', JNull),
          (''aggregateRemainingEstimateHuman'', JNull),
          (''aggregateTimeSpentSeconds'', JInt 90000),
          (''aggregateTimeSpentHuman'', JStr ''1 day, 1 hour'')]),
      (''worklogs'', JList
         [JObj
            [(''author'', JStr ''Ada''),
             (''started'', JStr ''2024-05-02T09:00:00.000+0000''),
             (''timeSpentSeconds'', JInt 5400),
             (''timeSpentHuman'', JStr ''1 hour, 30 minutes''),
             (''comment'', JStr ''review'')]])]"

text \<open>A raw issue that has a key and nothing else, not even a fields map.\<close>

definition bare_issue :: json where
  "bare_issue = JObj [(''key'', JStr ''DEMO-2'')]"

section \<open>Traces of requests\<close>





text \<open>An upstream that refuses every request with status 403.\<close>

definition forbidden_upstream :: upstream where
  "forbidden_upstream sent req =
     Reply \<lparr> status_code = 403, resp_text = ''Forbidden'', resp_json = None \<rparr>"





section \<open>Properties of the humanizer\<close>

lemma parts_humanize_spec:
  "(if (if d \<noteq> 0 then [str_int d @ '' day'' @ (if d > 1 then ''s'' else '''')] else []) @
       (if h \<noteq> 0 then [str_int h @ '' hour'' @ (if h > 1 then ''s'' else '''')] else []) @
       (if m \<noteq> 0 then [str_int m @ '' minute'' @ (if m > 1 then ''s'' else '''')] else [])
       \<noteq> []
    then join '', ''
      ((if d \<noteq> 0 then [str_int d @ '' day'' @ (if d > 1 then ''s'' else '''')] else []) @
       (if h \<noteq> 0 then [str_int h @ '' hour'' @ (if h > 1 then ''s'' else '''')] else []) @
       (if m \<noteq> 0 then [str_int m @ '' minute'' @ (if m > 1 then ''s'' else '''')] else []))
    else ''0 minutes'') = humanize_spec d h m"
  by (cases "d = 0"; cases "h = 0"; cases "m = 0")
     (simp_all add: humanize_spec_def unit_text_def)

lemma format_seconds_human_int:
  "format_seconds_human p (JInt s) =
     Inr (JStr (humanize_spec (s div 86400) (s mod 86400 div 3600)
                 (s mod 86400 mod 3600 div 60)))"
  unfolding format_seconds_human_def Let_def parts_humanize_spec by simp

text \<open>
  A count of seconds has one decomposition into days, hours below 24, minutes below 60 and
  leftover seconds below 60: the one \<^verbatim>\<open>divmod\<close> computes.
\<close>

lemma decompose_unique:
  fixes s :: int
  assumes s: "s = d * 86400 + h * 3600 + m * 60 + r"
    and h: "0 \<le> h" "h < 24" and m: "0 \<le> m" "m < 60" and r: "0 \<le> r" "r < 60"
  shows "s div 86400 = d" and "s mod 86400 div 3600 = h"
    and "s mod 86400 mod 3600 div 60 = m"
proof -
  have q: "0 \<le> h * 3600 + m * 60 + r" "h * 3600 + m * 60 + r < 86400"
    using h m r by auto
  have s': "s = (h * 3600 + m * 60 + r) + d * 86400"
    using s by simp
  show "s div 86400 = d"
    unfolding s' using q by (simp add: div_pos_pos_trivial)
  have md: "s mod 86400 = h * 3600 + m * 60 + r"
    unfolding s' using q by (simp add: mod_pos_pos_trivial)
  have q2: "0 \<le> m * 60 + r" "m * 60 + r < 3600"
    using m r by auto
  have e: "h * 3600 + m * 60 + r = (m * 60 + r) + h * 3600"
    by simp
  show "s mod 86400 div 3600 = h"
    unfolding md e using q2 by (simp add: div_pos_pos_trivial)
  have md2: "s mod 86400 mod 3600 = m * 60 + r"
    unfolding md e using q2 by (simp add: mod_pos_pos_trivial)
  have e2: "m * 60 + r = r + m * 60"
    by simp
  show "s mod 86400 mod 3600 div 60 = m"
    unfolding md2 e2 using r by (simp add: div_pos_pos_trivial)
qed

text \<open>
  C3. The humanizer maps null to null and 0 to \<open>0 minutes\<close>. A positive count of seconds
  that is \<open>d\<close> whole days, \<open>h\<close> whole hours, \<open>m\<close> whole minutes and \<open>r\<close> leftover
  seconds is rendered from \<open>d\<close>, \<open>h\<close> and \<open>m\<close> alone: the non-zero components in
  day-hour-minute order, joined with a comma and a space, each unit with a trailing \<open>s\<close>
  exactly when its count exceeds 1. So 90000 gives \<open>1 day, 1 hour\<close>, 7200 gives
  \<open>2 hours\<close> and 59 gives \<open>0 minutes\<close>.
\<close>

theorem format_seconds_human_spec:
  "format_seconds_human p JNull = Inr JNull \<and>
   format_seconds_human p (JInt 0) = Inr (JStr ''0 minutes'') \<and>
   (\<forall>s d h m r.
      0 < s \<and> s = d * 86400 + h * 3600 + m * 60 + r \<and>
      0 \<le> h \<and> h < 24 \<and> 0 \<le> m \<and> m < 60 \<and> 0 \<le> r \<and> r < 60 \<longrightarrow>
      format_seconds_human p (JInt s) = Inr (JStr (humanize_spec d h m))) \<and>
   format_seconds_human p (JInt 90000) = Inr (JStr ''1 day, 1 hour'') \<and>
   format_seconds_human p (JInt 7200) = Inr (JStr ''2 hours'') \<and>
   format_seconds_human p (JInt 59) = Inr (JStr ''0 minutes'')"
proof -
  have null: "format_seconds_human p JNull = Inr JNull"
    by (simp add: format_seconds_human_def)
  have zero: "format_seconds_human p (JInt 0) = Inr (JStr ''0 minutes'')"
    by (simp add: format_seconds_human_def)
  have pos: "format_seconds_human p (JInt s) = Inr (JStr (humanize_spec d h m))"
    if "s = d * 86400 + h * 3600 + m * 60 + r" "0 \<le> h" "h < 24" "0 \<le> m" "m < 60"
      "0 \<le> r" "r < 60" for s d h m r
    using decompose_unique [OF that] by (simp add: format_seconds_human_int)
  have ex1: "format_seconds_human p (JInt 90000) = Inr (JStr ''1 day, 1 hour'')"
    by (simp add: format_seconds_human_def str_int_def str_nat.simps)
  have ex2: "format_seconds_human p (JInt 7200) = Inr (JStr ''2 hours'')"
    by (simp add: format_seconds_human_def str_int_def str_nat.simps)
  have ex3: "format_seconds_human p (JInt 59) = Inr (JStr ''0 minutes'')"
    by (simp add: format_seconds_human_def)
  from null zero pos ex1 ex2 ex3 show ?thesis
    by blast
qed

theorem format_seconds_human_spec_witness:
  "format_seconds_human (\<lambda>_. None) (JInt 93784) = Inr (JStr (humanize_spec 1 2 3)) \<and>
   humanize_spec 1 2 3 = ''1 day, 2 hours, 3 minutes''"
proof -
  have "(0::int) < 93784 \<and> (93784::int) = 1 * 86400 + 2 * 3600 + 3 * 60 + 4 \<and>
        (0::int) \<le> 2 \<and> (2::int) < 24 \<and> (0::int) \<le> 3 \<and> (3::int) < 60 \<and>
        (0::int) \<le> 4 \<and> (4::int) < 60"
    by simp
  with format_seconds_human_spec [of "\<lambda>_. None"]
  have "format_seconds_human (\<lambda>_. None) (JInt 93784) = Inr (JStr (humanize_spec 1 2 3))"
    by blast
  moreover have "humanize_spec 1 2 3 = ''1 day, 2 hours, 3 minutes''"
    by (simp add: humanize_spec_def unit_text_def str_int_def str_nat.simps)
  ultimately show ?thesis
    by simp
qed

section \<open>Properties of the paginated fetchers\<close>

lemma page_ofD:
  assumes "page_of r = Some (b, t)"
  shows "\<exists>resp d. r = Reply resp \<and> \<not> status_code resp \<ge> 400 \<and>
     resp_json resp = Some (JObj d) \<and> map_of d ''issues'' = Some (JList b) \<and>
     map_of d ''total'' = t"
  using assms
  by (auto simp: page_of_def split: reply.splits if_splits option.splits json.splits)

text \<open>One iteration of each loop on a page.\<close>

lemma fetch_all_issues_loop_page:
  assumes "page_of (up sent (search_request u a q f mr start (Some 30))) = Some (b, t)"
  shows "fetch_all_issues_loop up u a q f mr issues start tot sent =
     (case py_ge (start + int (length b)) (first_total tot b t) of
        Inl e \<Rightarrow> Some (Inl e, sent @ [search_request u a q f mr start (Some 30)])
      | Inr stop \<Rightarrow>
          if stop
          then Some (Inr (issues @ b), sent @ [search_request u a q f mr start (Some 30)])
          else fetch_all_issues_loop up u a q f mr (issues @ b) (start + int (length b))
                 (first_total tot b t) (sent @ [search_request u a q f mr start (Some 30)]))"
proof -
  from page_ofD [OF assms] obtain resp d where
    r: "up sent (search_request u a q f mr start (Some 30)) = Reply resp"
      "\<not> status_code resp \<ge> 400" "resp_json resp = Some (JObj d)"
      "map_of d ''issues'' = Some (JList b)" "map_of d ''total'' = t"
    by blast
  show ?thesis
    by (subst fetch_all_issues_loop.simps)
       (simp add: r err_bind_def first_total_def split: sum.splits option.splits)
qed

lemma cli_fetch_all_issues_loop_page:
  assumes "page_of (up sent (search_request u a q f mr start None)) = Some (b, t)"
  shows "cli_fetch_all_issues_loop up u a q f mr issues start tot sent err =
     (case py_ge (start + int (length b)) (first_total tot b t) of
        Inl e \<Rightarrow> Some (Inl e, sent @ [search_request u a q f mr start None], err)
      | Inr stop \<Rightarrow>
          if stop
          then Some (Inr (issues @ b), sent @ [search_request u a q f mr start None], err)
          else cli_fetch_all_issues_loop up u a q f mr (issues @ b) (start + int (length b))
                 (first_total tot b t) (sent @ [search_request u a q f mr start None]) err)"
proof -
  from page_ofD [OF assms] obtain resp d where
    r: "up sent (search_request u a q f mr start None) = Reply resp"
      "\<not> status_code resp \<ge> 400" "resp_json resp = Some (JObj d)"
      "map_of d ''issues'' = Some (JList b)" "map_of d ''total'' = t"
    by blast
  show ?thesis
    by (subst cli_fetch_all_issues_loop.simps)
       (simp add: r err_bind_def first_total_def split: sum.splits option.splits)
qed

lemma str_int_offsets: "str_int 0 = ''0''" "str_int 100 = ''100''" "str_int 200 = ''200''"
  by (simp_all add: str_int_def str_nat.simps)

subsection \<open>Three pages for 250 records\<close>

lemma fetch_all_issues_loop_250:
  assumes p0: "page_of (up sent (search_request u a q f mr 0 (Some 30))) =
      Some (b0, Some (JInt 250))"
    and p1: "page_of (up (sent @ [search_request u a q f mr 0 (Some 30)])
      (search_request u a q f mr 100 (Some 30))) = Some (b1, t1)"
    and p2: "page_of (up (sent @ [search_request u a q f mr 0 (Some 30),
        search_request u a q f mr 100 (Some 30)])
      (search_request u a q f mr 200 (Some 30))) = Some (b2, t2)"
    and len: "length b0 = 100" "length b1 = 100" "length b2 = 50"
  shows "fetch_all_issues_loop up u a q f mr [] 0 JNull sent =
     Some (Inr (b0 @ b1 @ b2),
       sent @ map (\<lambda>k. search_request u a q f mr k (Some 30)) [0, 100, 200])"
proof -
  let ?mk = "\<lambda>k. search_request u a q f mr k (Some 30)"
  have "fetch_all_issues_loop up u a q f mr [] 0 JNull sent =
      fetch_all_issues_loop up u a q f mr b0 100 (JInt 250) (sent @ [?mk 0])"
    by (subst fetch_all_issues_loop_page [where up = up, OF p0])
       (simp add: first_total_def len)
  also have "\<dots> =
      fetch_all_issues_loop up u a q f mr (b0 @ b1) 200 (JInt 250) (sent @ [?mk 0, ?mk 100])"
    by (subst fetch_all_issues_loop_page [where up = up, OF p1])
       (simp add: first_total_def len)
  also have "\<dots> = Some (Inr (b0 @ b1 @ b2), sent @ [?mk 0, ?mk 100, ?mk 200])"
    by (subst fetch_all_issues_loop_page [where up = up and b = b2 and t = t2])
       (simp_all add: p2 first_total_def len)
  finally show ?thesis
    by simp
qed

lemma cli_fetch_all_issues_loop_250:
  assumes p0: "page_of (up sent (search_request u a q f mr 0 None)) =
      Some (b0, Some (JInt 250))"
    and p1: "page_of (up (sent @ [search_request u a q f mr 0 None])
      (search_request u a q f mr 100 None)) = Some (b1, t1)"
    and p2: "page_of (up (sent @ [search_request u a q f mr 0 None,
        search_request u a q f mr 100 None])
      (search_request u a q f mr 200 None)) = Some (b2, t2)"
    and len: "length b0 = 100" "length b1 = 100" "length b2 = 50"
  shows "cli_fetch_all_issues_loop up u a q f mr [] 0 JNull sent err =
     Some (Inr (b0 @ b1 @ b2),
       sent @ map (\<lambda>k. search_request u a q f mr k None) [0, 100, 200], err)"
proof -
  let ?mk = "\<lambda>k. search_request u a q f mr k None"
  have "cli_fetch_all_issues_loop up u a q f mr [] 0 JNull sent err =
      cli_fetch_all_issues_loop up u a q f mr b0 100 (JInt 250) (sent @ [?mk 0]) err"
    by (subst cli_fetch_all_issues_loop_page [where up = up, OF p0])
       (simp add: first_total_def len)
  also have "\<dots> =
      cli_fetch_all_issues_loop up u a q f mr (b0 @ b1) 200 (JInt 250)
        (sent @ [?mk 0, ?mk 100]) err"
    by (subst cli_fetch_all_issues_loop_page [where up = up, OF p1])
       (simp add: first_total_def len)
  also have "\<dots> = Some (Inr (b0 @ b1 @ b2), sent @ [?mk 0, ?mk 100, ?mk 200], err)"
    by (subst cli_fetch_all_issues_loop_page [where up = up and b = b2 and t = t2])
       (simp_all add: p2 first_total_def len)
  finally show ?thesis
    by simp
qed

text \<open>
  C1. When the upstream reports a total of 250 on the first page and serves batches of
  100, 100 and 50 records at offsets 0, 100 and 200, each fetcher sends exactly the three
  search requests with \<open>startAt\<close> 0, 100 and 200 and returns the 250 records in the order
  of the pages. The totals \<open>t1\<close> and \<open>t2\<close> of the later pages are arbitrary: only the
  first is read. The first half is app.py's fetcher, the second get\_jira.py's.
\<close>

theorem fetch_all_issues_three_pages:
  "(serves_pages up sent
      (\<lambda>k. search_request (rstrip_slash base_url @ ''/rest/api/2/search'') auth jql flds mr k
             (Some 30))
      [(0, b0, Some (JInt 250)), (100, b1, t1), (200, b2, t2)] \<and>
    length b0 = 100 \<and> length b1 = 100 \<and> length b2 = 50 \<longrightarrow>
    (\<exists>new.
       fetch_all_issues up base_url auth jql flds mr sent =
         Some (Inr (b0 @ b1 @ b2), sent @ new) \<and>
       new = map (\<lambda>k. search_request (rstrip_slash base_url @ ''/rest/api/2/search'') auth jql
                        flds mr k (Some 30)) [0, 100, 200] \<and>
       map (\<lambda>r. map_of (req_params r) ''startAt'') new =
         [Some ''0'', Some ''100'', Some ''200''] \<and>
       length (b0 @ b1 @ b2) = 250)) \<and>
   (serves_pages up sent (\<lambda>k. search_request search_url auth jql flds mr k None)
      [(0, b0, Some (JInt 250)), (100, b1, t1), (200, b2, t2)] \<and>
    length b0 = 100 \<and> length b1 = 100 \<and> length b2 = 50 \<longrightarrow>
    (\<exists>new.
       cli_fetch_all_issues up search_url auth jql flds mr sent err =
         Some (Inr (b0 @ b1 @ b2), sent @ new, err) \<and>
       new = map (\<lambda>k. search_request search_url auth jql flds mr k None) [0, 100, 200] \<and>
       map (\<lambda>r. map_of (req_params r) ''startAt'') new =
         [Some ''0'', Some ''100'', Some ''200''] \<and>
       length (b0 @ b1 @ b2) = 250))"
proof (intro conjI impI)
  let ?mk = "\<lambda>k. search_request (rstrip_slash base_url @ ''/rest/api/2/search'') auth jql flds
    mr k (Some 30)"
  assume "serves_pages up sent ?mk [(0, b0, Some (JInt 250)), (100, b1, t1), (200, b2, t2)] \<and>
    length b0 = 100 \<and> length b1 = 100 \<and> length b2 = 50"
  then have p: "page_of (up sent (?mk 0)) = Some (b0, Some (JInt 250))"
      "page_of (up (sent @ [?mk 0]) (?mk 100)) = Some (b1, t1)"
      "page_of (up (sent @ [?mk 0, ?mk 100]) (?mk 200)) = Some (b2, t2)"
    and len: "length b0 = 100" "length b1 = 100" "length b2 = 50"
    by simp_all
  have "fetch_all_issues up base_url auth jql flds mr sent =
      Some (Inr (b0 @ b1 @ b2), sent @ map ?mk [0, 100, 200])"
    unfolding fetch_all_issues_def
    by (rule fetch_all_issues_loop_250 [where up = up, OF p len])
  then show "\<exists>new.
       fetch_all_issues up base_url auth jql flds mr sent =
         Some (Inr (b0 @ b1 @ b2), sent @ new) \<and>
       new = map ?mk [0, 100, 200] \<and>
       map (\<lambda>r. map_of (req_params r) ''startAt'') new =
         [Some ''0'', Some ''100'', Some ''200''] \<and>
       length (b0 @ b1 @ b2) = 250"
    by (simp add: len search_request_def str_int_offsets)
next
  let ?mk = "\<lambda>k. search_request search_url auth jql flds mr k None"
  assume "serves_pages up sent ?mk [(0, b0, Some (JInt 250)), (100, b1, t1), (200, b2, t2)] \<and>
    length b0 = 100 \<and> length b1 = 100 \<and> length b2 = 50"
  then have p: "page_of (up sent (?mk 0)) = Some (b0, Some (JInt 250))"
      "page_of (up (sent @ [?mk 0]) (?mk 100)) = Some (b1, t1)"
      "page_of (up (sent @ [?mk 0, ?mk 100]) (?mk 200)) = Some (b2, t2)"
    and len: "length b0 = 100" "length b1 = 100" "length b2 = 50"
    by simp_all
  have "cli_fetch_all_issues up search_url auth jql flds mr sent err =
      Some (Inr (b0 @ b1 @ b2), sent @ map ?mk [0, 100, 200], err)"
    unfolding cli_fetch_all_issues_def
    by (rule cli_fetch_all_issues_loop_250 [where up = up, OF p len])
  then show "\<exists>new.
       cli_fetch_all_issues up search_url auth jql flds mr sent err =
         Some (Inr (b0 @ b1 @ b2), sent @ new, err) \<and>
       new = map ?mk [0, 100, 200] \<and>
       map (\<lambda>r. map_of (req_params r) ''startAt'') new =
         [Some ''0'', Some ''100'', Some ''200''] \<and>
       length (b0 @ b1 @ b2) = 250"
    by (simp add: len search_request_def str_int_offsets)
qed

lemma paged_upstream_page:
  "page_of (paged_upstream s (search_request u a q f mr k tmo)) =
     Some (replicate (if str_int k = ''200'' then 50 else 100) (JObj []), Some (JInt 250))"
  by (simp add: page_of_def paged_upstream_def search_request_def)

theorem fetch_all_issues_three_pages_witness:
  "fetch_all_issues paged_upstream ''https://jira.example.org/'' (''user'', ''secret'')
     ''project = DEMO'' ''key,summary'' 100 [] =
     Some (Inr (replicate 100 (JObj []) @ replicate 100 (JObj []) @ replicate 50 (JObj [])),
       map (\<lambda>k. search_request ''https://jira.example.org/rest/api/2/search''
                   (''user'', ''secret'') ''project = DEMO'' ''key,summary'' 100 k (Some 30))
         [0, 100, 200]) \<and>
   cli_fetch_all_issues paged_upstream ''https://jira.example.org/rest/api/2/search''
     (''user'', ''secret'') ''project = DEMO'' ''key,summary'' 100 [] [] =
     Some (Inr (replicate 100 (JObj []) @ replicate 100 (JObj []) @ replicate 50 (JObj [])),
       map (\<lambda>k. search_request ''https://jira.example.org/rest/api/2/search''
                   (''user'', ''secret'') ''project = DEMO'' ''key,summary'' 100 k None)
         [0, 100, 200], [])"
proof -
  have url: "rstrip_slash ''https://jira.example.org/'' @ ''/rest/api/2/search'' =
      ''https://jira.example.org/rest/api/2/search''"
    by (simp add: rstrip_slash_def)
  have pages: "serves_pages paged_upstream [] (\<lambda>k. search_request u a q f mr k tmo)
      [(0, replicate 100 (JObj []), Some (JInt 250)),
       (100, replicate 100 (JObj []), Some (JInt 250)),
       (200, replicate 50 (JObj []), Some (JInt 250))]" for u a q f mr tmo
    by (simp add: paged_upstream_page str_int_offsets)
  from fetch_all_issues_three_pages
    [of paged_upstream "[]" "''https://jira.example.org/''" "(''user'', ''secret'')"
      "''project = DEMO''" "''key,summary''" 100 "replicate 100 (JObj [])"
      "replicate 100 (JObj [])" "Some (JInt 250)" "replicate 50 (JObj [])" "Some (JInt 250)"
      "''https://jira.example.org/rest/api/2/search''" "[]"]
    pages
  show ?thesis
    by (simp add: url)
qed

subsection \<open>When the loops end\<close>












section \<open>Properties of the projector\<close>

lemma err_bind_Inr: "err_bind m f = Inr y \<longleftrightarrow> (\<exists>x. m = Inr x \<and> f x = Inr y)"
  by (cases m) (simp_all add: err_bind_def)

lemma err_bind_simps [simp]: "err_bind (Inr x) f = f x" "err_bind (Inl e) f = Inl e"
  by (simp_all add: err_bind_def)

lemma py_get_null: "py_get (JObj f) k JNull = Inr (field_or_null f k)"
  by (simp add: field_or_null_def)

lemma map_err_Inr:
  "map_err f xs = Inr ys \<Longrightarrow> length ys = length xs \<and> (\<forall>i<length xs. f (xs ! i) = Inr (ys ! i))"
proof (induction xs arbitrary: ys)
  case Nil
  then show ?case by simp
next
  case (Cons x xs)
  from Cons.prems obtain y ys' where y: "f x = Inr y" "map_err f xs = Inr ys'" "ys = y # ys'"
    by (auto split: sum.splits)
  from Cons.IH [OF y(2)] y show ?case
    by (auto simp: nth_Cons split: nat.splits)
qed

lemma join_nonempty: "ps \<noteq> [] \<Longrightarrow> hd ps \<noteq> [] \<Longrightarrow> join sep ps \<noteq> []"
  by (induction sep ps rule: join.induct) auto

lemma str_nat_nonempty: "str_nat n \<noteq> []"
  by (subst str_nat.simps) simp

lemma str_int_nonempty: "str_int n \<noteq> []"
  by (simp add: str_int_def str_nat_nonempty)

lemma humanize_spec_nonempty: "humanize_spec d h m \<noteq> []"
  by (cases "d = 0"; cases "h = 0"; cases "m = 0")
     (simp_all add: humanize_spec_def unit_text_def str_int_nonempty)

lemma format_seconds_human_value:
  assumes "s \<noteq> JNull" "py_int p s = Inr n"
  shows "format_seconds_human p s =
     Inr (JStr (humanize_spec (n div 86400) (n mod 86400 div 3600)
                 (n mod 86400 mod 3600 div 60)))"
  unfolding format_seconds_human_def Let_def parts_humanize_spec using assms by simp

lemma format_seconds_human_human_of:
  assumes "format_seconds_human p s = Inr h"
  shows "human_of s h"
proof (cases "s = JNull")
  case True
  with assms show ?thesis
    by (simp add: format_seconds_human_def human_of_def)
next
  case False
  with assms obtain n where n: "py_int p s = Inr n"
    by (auto simp: format_seconds_human_def split: sum.splits)
  from format_seconds_human_value [OF False n] assms False show ?thesis
    by (auto simp: human_of_def humanize_spec_nonempty)
qed

lemma issue_item_fields:
  assumes "issue_item p it = Inr item"
  shows "\<exists>kvs f. it = JObj kvs \<and>
    (case map_of kvs ''fields'' of None \<Rightarrow> JObj [] | Some v \<Rightarrow> v) = JObj f"
proof -
  from assms obtain kvs where it: "it = JObj kvs"
    by (cases it) (simp_all add: issue_item_def)
  obtain f where "(case map_of kvs ''fields'' of None \<Rightarrow> JObj [] | Some v \<Rightarrow> v) = JObj f"
  proof (cases "case map_of kvs ''fields'' of None \<Rightarrow> JObj [] | Some v \<Rightarrow> v")
    case (JObj f)
    then show ?thesis
      using that by blast
  qed (use assms it in \<open>simp_all add: issue_item_def\<close>)
  with it show ?thesis
    by blast
qed

lemma fields_of_obj:
  assumes "(case map_of kvs ''fields'' of None \<Rightarrow> JObj [] | Some v \<Rightarrow> v) = JObj f"
  shows "fields_of (JObj kvs) = f"
  using assms by (auto simp: fields_of_def split: option.splits json.splits)

lemma issue_item_obj:
  assumes "(case map_of kvs ''fields'' of None \<Rightarrow> JObj [] | Some v \<Rightarrow> v) = JObj f"
  shows "issue_item p (JObj kvs) =
     err_bind (get_in (JObj f) ''status'' ''name'') (\<lambda>status.
     err_bind (get_in (JObj f) ''resolution'' ''name'') (\<lambda>resolution.
     err_bind (get_in (JObj f) ''assignee'' ''displayName'') (\<lambda>assignee.
     err_bind (component_names (JObj f)) (\<lambda>components.
     err_bind (format_seconds_human p (field_or_null f ''timeoriginalestimate'')) (\<lambda>original_human.
     err_bind (format_seconds_human p (field_or_null f ''timeestimate'')) (\<lambda>remaining_human.
     err_bind (format_seconds_human p (field_or_null f ''timespent'')) (\<lambda>spent_human.
     err_bind (format_seconds_human p (field_or_null f ''aggregatetimeoriginalestimate'')) (\<lambda>agg_orig_human.
     err_bind (format_seconds_human p (field_or_null f ''aggregatetimeestimate'')) (\<lambda>agg_rem_human.
     err_bind (format_seconds_human p (field_or_null f ''aggregatetimespent'')) (\<lambda>agg_sp_human.
     Inr [(''key'', field_or_null kvs ''key''),
          (''summary'', field_or_null f ''summary''),
          (''status'', status),
          (''resolution'', resolution),
          (''resolutiondate'', field_or_null f ''resolutiondate''),
          (''updated'', field_or_null f ''updated''),
          (''assignee'', assignee),
          (''labels'', field_or_null f ''labels''),
          (''components'', components),
          (''time'', JObj
             [(''originalEstimateSeconds'', field_or_null f ''timeoriginalestimate''),
              (''originalEstimateHuman'', original_human),
              (''remainingEstimateSeconds'', field_or_null f ''timeestimate''),
              (''remainingEstimateHuman'', remaining_human),
              (''timeSpentSeconds'', field_or_null f ''timespent''),
              (''timeSpentHuman'', spent_human),
              (''aggregateOriginalEstimateSeconds'', field_or_null f ''aggregatetimeoriginalestimate''),
              (''aggregateOriginalEstimateHuman'', agg_orig_human),
              (''aggregateRemainingEstimateSeconds'', field_or_null f ''aggregatetimeestimate''),
              (''aggregateRemainingEstimateHuman'', agg_rem_human),
              (''aggregateTimeSpentSeconds'', field_or_null f ''aggregatetimespent''),
              (''aggregateTimeSpentHuman'', agg_sp_human)])]))))))))))"
proof -
  have g: "py_get (JObj kvs) ''fields'' (JObj []) = Inr (JObj f)"
    using assms by simp
  show ?thesis
    unfolding issue_item_def g err_bind_simps py_get_null ..
qed

lemma issue_item_time_block:
  assumes "issue_item p it = Inr item"
  shows "time_block_ok it (JObj (item @ extra))"
proof -
  from issue_item_fields [OF assms] obtain kvs f where it: "it = JObj kvs"
    and f: "(case map_of kvs ''fields'' of None \<Rightarrow> JObj [] | Some v \<Rightarrow> v) = JObj f"
    by blast
  from assms [unfolded it issue_item_obj [OF f] err_bind_Inr]
  obtain h1 h2 h3 h4 h5 h6 where
    h: "format_seconds_human p (field_or_null f ''timeoriginalestimate'') = Inr h1"
      "format_seconds_human p (field_or_null f ''timeestimate'') = Inr h2"
      "format_seconds_human p (field_or_null f ''timespent'') = Inr h3"
      "format_seconds_human p (field_or_null f ''aggregatetimeoriginalestimate'') = Inr h4"
      "format_seconds_human p (field_or_null f ''aggregatetimeestimate'') = Inr h5"
      "format_seconds_human p (field_or_null f ''aggregatetimespent'') = Inr h6"
    and item: "map_of item ''time'' = Some (JObj
             [(''originalEstimateSeconds'', field_or_null f ''timeoriginalestimate''),
              (''originalEstimateHuman'', h1),
              (''remainingEstimateSeconds'', field_or_null f ''timeestimate''),
              (''remainingEstimateHuman'', h2),
              (''timeSpentSeconds'', field_or_null f ''timespent''),
              (''timeSpentHuman'', h3),
              (''aggregateOriginalEstimateSeconds'', field_or_null f ''aggregatetimeoriginalestimate''),
              (''aggregateOriginalEstimateHuman'', h4),
              (''aggregateRemainingEstimateSeconds'', field_or_null f ''aggregatetimeestimate''),
              (''aggregateRemainingEstimateHuman'', h5),
              (''aggregateTimeSpentSeconds'', field_or_null f ''aggregatetimespent''),
              (''aggregateTimeSpentHuman'', h6)])"
    by auto
  note ho = h [THEN format_seconds_human_human_of]
  show ?thesis
    unfolding time_block_ok_def it fields_of_obj [OF f]
    by (simp add: item map_add_def time_keys_def ho)
qed

lemma project_issue_Inr:
  assumes "project_issue up p it base auth incl sent = Some (Inr item', sent')"
  shows "\<exists>item extra. issue_item p it = Inr item \<and> item' = JObj (item @ extra)"
  using assms unfolding project_issue_def
  by (auto split: sum.splits if_splits option.splits prod.splits)

lemma project_issues_Inr:
  assumes "project_issues up p issues base auth incl sent = Some (Inr out, sent')"
  shows "length out = length issues \<and>
    (\<forall>i<length issues. \<exists>s s'.
       project_issue up p (issues ! i) base auth incl s = Some (Inr (out ! i), s'))"
  using assms
proof (induction issues arbitrary: out sent)
  case Nil
  then show ?case by simp
next
  case (Cons it its)
  from Cons.prems obtain item s1 out' where
    a: "project_issue up p it base auth incl sent = Some (Inr item, s1)"
      "project_issues up p its base auth incl s1 = Some (Inr out', sent')" "out = item # out'"
    by (auto split: option.splits sum.splits prod.splits)
  from Cons.IH [OF a(2)] a(1,3) show ?case
    by (auto simp: nth_Cons split: nat.splits)
qed

lemma demo_project_issues:
  "project_issues worklog_upstream (\<lambda>_. None) [demo_issue] ''https://jira.example.org/''
     (''user'', ''secret'') True [] =
   Some (Inr [demo_item],
     [worklog_request ''https://jira.example.org'' (''user'', ''secret'') (JStr ''DEMO-1'') 0
        100])"
  by code_simp

text \<open>
  C4. In every enriched record that \<^verbatim>\<open>project_issues\<close> produces, each Seconds entry of
  the time block is the raw field (null when absent), and each Human entry is null exactly
  when its Seconds entry is null and a non-empty string otherwise. This holds of every
  record produced, so also of those whose six fields are null or non-negative integers.
\<close>

theorem project_issues_time_block:
  "project_issues up p issues base_url auth include_worklogs sent = Some (Inr out, sent') \<longrightarrow>
   length out = length issues \<and>
   (\<forall>i<length issues. time_block_ok (issues ! i) (out ! i))"
proof
  assume a: "project_issues up p issues base_url auth include_worklogs sent =
    Some (Inr out, sent')"
  from project_issues_Inr [OF a] have len: "length out = length issues"
    and each: "\<And>i. i < length issues \<Longrightarrow> \<exists>s s'.
       project_issue up p (issues ! i) base_url auth include_worklogs s =
         Some (Inr (out ! i), s')"
    by blast+
  have "time_block_ok (issues ! i) (out ! i)" if "i < length issues" for i
  proof -
    from each [OF that] project_issue_Inr obtain item extra where
      "issue_item p (issues ! i) = Inr item" "out ! i = JObj (item @ extra)"
      by blast
    then show ?thesis
      by (simp add: issue_item_time_block)
  qed
  with len show "length out = length issues \<and>
     (\<forall>i<length issues. time_block_ok (issues ! i) (out ! i))"
    by blast
qed

theorem project_issues_time_block_witness:
  "project_issues worklog_upstream (\<lambda>_. None) [demo_issue] ''https://jira.example.org/''
     (''user'', ''secret'') True [] =
   Some (Inr [demo_item],
     [worklog_request ''https://jira.example.org'' (''user'', ''secret'') (JStr ''DEMO-1'') 0
        100]) \<and>
   time_block_ok demo_issue demo_item"
  using project_issues_time_block
    [of worklog_upstream "\<lambda>_. None" "[demo_issue]" "''https://jira.example.org/''"
      "(''user'', ''secret'')" True "[]" "[demo_item]"
      "[worklog_request ''https://jira.example.org'' (''user'', ''secret'') (JStr ''DEMO-1'') 0
          100]"]
    demo_project_issues
  by simp

subsection \<open>One record per issue, in order\<close>

lemma issue_item_key:
  assumes "issue_item p it = Inr item"
  shows "py_get (JObj (item @ extra)) ''key'' JNull = py_get it ''key'' JNull"
proof -
  from issue_item_fields [OF assms] obtain kvs f where it: "it = JObj kvs"
    and f: "(case map_of kvs ''fields'' of None \<Rightarrow> JObj [] | Some v \<Rightarrow> v) = JObj f"
    by blast
  from assms [unfolded it issue_item_obj [OF f] err_bind_Inr]
  have "map_of item ''key'' = Some (field_or_null kvs ''key'')"
    by auto
  then show ?thesis
    by (simp add: it map_add_def field_or_null_def)
qed

lemma cli_project_issue_fields:
  assumes "cli_project_issue it = Inr item"
  shows "\<exists>kvs f. it = JObj kvs \<and>
    (case map_of kvs ''fields'' of None \<Rightarrow> JObj [] | Some v \<Rightarrow> v) = JObj f"
proof -
  from assms obtain kvs where it: "it = JObj kvs"
    by (cases it) (simp_all add: cli_project_issue_def)
  obtain f where "(case map_of kvs ''fields'' of None \<Rightarrow> JObj [] | Some v \<Rightarrow> v) = JObj f"
  proof (cases "case map_of kvs ''fields'' of None \<Rightarrow> JObj [] | Some v \<Rightarrow> v")
    case (JObj f)
    then show ?thesis
      using that by blast
  qed (use assms it in \<open>simp_all add: cli_project_issue_def\<close>)
  with it show ?thesis
    by blast
qed

lemma cli_project_issue_obj:
  assumes "(case map_of kvs ''fields'' of None \<Rightarrow> JObj [] | Some v \<Rightarrow> v) = JObj f"
  shows "cli_project_issue (JObj kvs) =
     err_bind (get_in (JObj f) ''status'' ''name'') (\<lambda>status.
     err_bind (get_in (JObj f) ''resolution'' ''name'') (\<lambda>resolution.
     err_bind (get_in (JObj f) ''assignee'' ''displayName'') (\<lambda>assignee.
     err_bind (component_names (JObj f)) (\<lambda>components.
     Inr (JObj
       [(''key'', field_or_null kvs ''key''),
        (''summary'', field_or_null f ''summary''),
        (''status'', status),
        (''resolution'', resolution),
        (''resolutiondate'', field_or_null f ''resolutiondate''),
        (''updated'', field_or_null f ''updated''),
        (''assignee'', assignee),
        (''labels'', field_or_null f ''labels''),
        (''components'', components)])))))"
proof -
  have g: "py_get (JObj kvs) ''fields'' (JObj []) = Inr (JObj f)"
    using assms by simp
  show ?thesis
    unfolding cli_project_issue_def g err_bind_simps py_get_null ..
qed

lemma cli_project_issue_key:
  assumes "cli_project_issue it = Inr item"
  shows "py_get item ''key'' JNull = py_get it ''key'' JNull"
proof -
  from cli_project_issue_fields [OF assms] obtain kvs f where it: "it = JObj kvs"
    and f: "(case map_of kvs ''fields'' of None \<Rightarrow> JObj [] | Some v \<Rightarrow> v) = JObj f"
    by blast
  from assms [unfolded it cli_project_issue_obj [OF f] err_bind_Inr]
  obtain kvs' where "item = JObj kvs'" "map_of kvs' ''key'' = Some (field_or_null kvs ''key'')"
    by auto
  then show ?thesis
    by (simp add: it field_or_null_def)
qed

lemma demo_cli_project_issues:
  "cli_project_issues [demo_issue, bare_issue] =
     Inr [JObj [(''key'', JStr ''DEMO-1''), (''summary'', JStr ''Fix login''),
                (''status'', JStr ''Done''), (''resolution'', JNull),
                (''resolutiondate'', JNull), (''updated'', JNull),
                (''assignee'', JNull), (''labels'', JNull),
                (''components'', JList [JStr ''web''])],
          JObj [(''key'', JStr ''DEMO-2''), (''summary'', JNull),
                (''status'', JNull), (''resolution'', JNull),
                (''resolutiondate'', JNull), (''updated'', JNull),
                (''assignee'', JNull), (''labels'', JNull),
                (''components'', JList [])]]"
  by code_simp

text \<open>
  C7. The list each projector returns has one record per raw issue, in the order of the
  issues: the record at position \<open>i\<close> is the projection of the issue at position \<open>i\<close> and
  carries its key. The first half is app.py's projector, the second get\_jira.py's.
\<close>

theorem project_issues_one_to_one:
  "(project_issues up p issues base_url auth include_worklogs sent = Some (Inr out, sent') \<longrightarrow>
      length out = length issues \<and>
      (\<forall>i<length issues.
         (\<exists>s s'. project_issue up p (issues ! i) base_url auth include_worklogs s =
            Some (Inr (out ! i), s')) \<and>
         py_get (out ! i) ''key'' JNull = py_get (issues ! i) ''key'' JNull)) \<and>
   (cli_project_issues issues = Inr out' \<longrightarrow>
      length out' = length issues \<and>
      (\<forall>i<length issues.
         cli_project_issue (issues ! i) = Inr (out' ! i) \<and>
         py_get (out' ! i) ''key'' JNull = py_get (issues ! i) ''key'' JNull))"
proof (intro conjI impI)
  assume a: "project_issues up p issues base_url auth include_worklogs sent =
    Some (Inr out, sent')"
  from project_issues_Inr [OF a] show "length out = length issues"
    by blast
  show "\<forall>i<length issues.
         (\<exists>s s'. project_issue up p (issues ! i) base_url auth include_worklogs s =
            Some (Inr (out ! i), s')) \<and>
         py_get (out ! i) ''key'' JNull = py_get (issues ! i) ''key'' JNull"
  proof (intro allI impI)
    fix i
    assume "i < length issues"
    with project_issues_Inr [OF a] obtain s s' where
      pi: "project_issue up p (issues ! i) base_url auth include_worklogs s =
        Some (Inr (out ! i), s')"
      by blast
    from project_issue_Inr [OF pi] obtain item extra where
      ii: "issue_item p (issues ! i) = Inr item" and oi: "out ! i = JObj (item @ extra)"
      by blast
    have "py_get (out ! i) ''key'' JNull = py_get (issues ! i) ''key'' JNull"
      unfolding oi using ii by (rule issue_item_key)
    with pi show "(\<exists>s s'. project_issue up p (issues ! i) base_url auth include_worklogs s =
            Some (Inr (out ! i), s')) \<and>
         py_get (out ! i) ''key'' JNull = py_get (issues ! i) ''key'' JNull"
      by blast
  qed
next
  assume a: "cli_project_issues issues = Inr out'"
  then have m: "length out' = length issues"
    "\<And>i. i < length issues \<Longrightarrow> cli_project_issue (issues ! i) = Inr (out' ! i)"
    using map_err_Inr [of cli_project_issue issues out'] by (simp_all add: cli_project_issues_def)
  from m(1) show "length out' = length issues" .
  from m(2) show "\<forall>i<length issues.
         cli_project_issue (issues ! i) = Inr (out' ! i) \<and>
         py_get (out' ! i) ''key'' JNull = py_get (issues ! i) ''key'' JNull"
    by (simp add: cli_project_issue_key)
qed

theorem project_issues_one_to_one_witness:
  "(\<exists>out. cli_project_issues [demo_issue, bare_issue] = Inr out \<and> length out = 2 \<and>
      py_get (out ! 0) ''key'' JNull = Inr (JStr ''DEMO-1'') \<and>
      py_get (out ! 1) ''key'' JNull = Inr (JStr ''DEMO-2'')) \<and>
   (\<exists>out sent'.
      project_issues worklog_upstream (\<lambda>_. None) [demo_issue] ''https://jira.example.org/''
        (''user'', ''secret'') True [] = Some (Inr out, sent') \<and>
      length out = 1 \<and> py_get (out ! 0) ''key'' JNull = Inr (JStr ''DEMO-1''))"
proof -
  from demo_cli_project_issues obtain out where
    c: "cli_project_issues [demo_issue, bare_issue] = Inr out"
    by blast
  from project_issues_one_to_one [THEN conjunct2, rule_format, OF c]
  have "length out = 2"
    and "py_get (out ! 0) ''key'' JNull = py_get demo_issue ''key'' JNull"
    and "py_get (out ! 1) ''key'' JNull = py_get bare_issue ''key'' JNull"
    by simp_all
  with c have cli: "\<exists>out. cli_project_issues [demo_issue, bare_issue] = Inr out \<and>
      length out = 2 \<and>
      py_get (out ! 0) ''key'' JNull = Inr (JStr ''DEMO-1'') \<and>
      py_get (out ! 1) ''key'' JNull = Inr (JStr ''DEMO-2'')"
    by (simp add: demo_issue_def bare_issue_def)
  from demo_project_issues obtain out2 sent' where
    a: "project_issues worklog_upstream (\<lambda>_. None) [demo_issue] ''https://jira.example.org/''
        (''user'', ''secret'') True [] = Some (Inr out2, sent')"
    by blast
  from project_issues_one_to_one [THEN conjunct1, rule_format, OF a]
  have "length out2 = 1"
    and "py_get (out2 ! 0) ''key'' JNull = py_get demo_issue ''key'' JNull"
    by simp_all
  with a have "\<exists>out sent'.
      project_issues worklog_upstream (\<lambda>_. None) [demo_issue] ''https://jira.example.org/''
        (''user'', ''secret'') True [] = Some (Inr out, sent') \<and>
      length out = 1 \<and> py_get (out ! 0) ''key'' JNull = Inr (JStr ''DEMO-1'')"
    by (simp add: demo_issue_def)
  with cli show ?thesis
    by blast
qed

subsection \<open>Totality on raw issue records\<close>

lemma get_in_shape:
  assumes "object_or_null (field_or_null f k)"
  shows "get_in (JObj f) k n =
     Inr (case field_or_null f k of JObj ob \<Rightarrow> field_or_null ob n | _ \<Rightarrow> JNull)"
proof (cases "field_or_null f k")
  case (JObj ob)
  then show ?thesis
    by (cases ob) (simp_all add: get_in_def py_get_null py_or_def field_or_null_def
        del: py_get.simps)
qed (use assms in \<open>simp_all add: get_in_def py_get_null py_or_def object_or_null_def
    field_or_null_def del: py_get.simps\<close>)



lemma format_seconds_human_shape:
  assumes "seconds_shape v"
  shows "\<exists>h. format_seconds_human p v = Inr h"
proof (cases v)
  case (JInt n)
  then show ?thesis
    by (simp add: format_seconds_human_int)
qed (use assms in \<open>simp_all add: seconds_shape_def format_seconds_human_def\<close>)












text \<open>
  A fields entry that is present but null is not a missing one: \<^verbatim>\<open>it.get("fields", {})\<close>
  returns the null, and the first \<^verbatim>\<open>f.get\<close> raises.
\<close>

lemma null_fields_raise:
  "cli_project_issue (JObj [(''key'', JStr ''DEMO-3''), (''fields'', JNull)]) =
     Inl AttributeError"
  "issue_item p (JObj [(''key'', JStr ''DEMO-3''), (''fields'', JNull)]) = Inl AttributeError"
  by (simp_all add: cli_project_issue_def issue_item_def)

subsection \<open>Work-log records\<close>

text \<open>
  The claim C9 fails on a work-log whose \<open>timeSpent\<close> string is present but empty:
  \<^verbatim>\<open>or\<close> takes the empty string for absent, and \<open>timeSpentHuman\<close> is the humanized
  \<open>timeSpentSeconds\<close>, \<open>1 hour\<close>, not the upstream's string.
\<close>

theorem project_worklog_empty_time_spent:
  "project_worklog (\<lambda>_. None)
     (JObj [(''timeSpent'', JStr ''''), (''timeSpentSeconds'', JInt 3600)]) =
   Inr (JObj [(''author'', JNull), (''started'', JNull), (''timeSpentSeconds'', JInt 3600),
              (''timeSpentHuman'', JStr ''1 hour''), (''comment'', JNull)])"
  by code_simp

text \<open>
  C9, amended. For a work-log record whose author is absent, null or an object and whose
  \<open>timeSpent\<close> is truthy or whose \<open>timeSpentSeconds\<close> is absent, null or an integer, the
  projector returns a record in which \<open>timeSpentHuman\<close> is the upstream's \<open>timeSpent\<close>
  string when that string is present and not empty, and the humanizer applied to
  \<open>timeSpentSeconds\<close> when \<open>timeSpent\<close> is absent, null or the empty string; and in
  which \<open>comment\<close> is the raw comment when that is a string, and null for any other
  shape.
\<close>

theorem project_worklog_fields:
  "object_or_null (field_or_null wl ''author'') \<and>
   (py_truthy (field_or_null wl ''timeSpent'') \<or>
    seconds_shape (field_or_null wl ''timeSpentSeconds'')) \<longrightarrow>
   (\<exists>item.
      project_worklog p (JObj wl) = Inr (JObj item) \<and>
      (\<forall>s. field_or_null wl ''timeSpent'' = JStr s \<and> s \<noteq> [] \<longrightarrow>
           map_of item ''timeSpentHuman'' = Some (JStr s)) \<and>
      (field_or_null wl ''timeSpent'' = JNull \<or> field_or_null wl ''timeSpent'' = JStr [] \<longrightarrow>
         (\<exists>h. map_of item ''timeSpentHuman'' = Some h \<and>
            format_seconds_human p (field_or_null wl ''timeSpentSeconds'') = Inr h)) \<and>
      map_of item ''comment'' =
        Some (case field_or_null wl ''comment'' of JStr s \<Rightarrow> JStr s | _ \<Rightarrow> JNull))"
proof
  assume a: "object_or_null (field_or_null wl ''author'') \<and>
    (py_truthy (field_or_null wl ''timeSpent'') \<or>
     seconds_shape (field_or_null wl ''timeSpentSeconds''))"
  then have au: "object_or_null (field_or_null wl ''author'')"
    by simp
  let ?item = "\<lambda>h. [(''author'', case field_or_null wl ''author'' of
                          JObj ob \<Rightarrow> field_or_null ob ''displayName'' | _ \<Rightarrow> JNull),
                     (''started'', field_or_null wl ''started''),
                     (''timeSpentSeconds'', field_or_null wl ''timeSpentSeconds''),
                     (''timeSpentHuman'', h),
                     (''comment'', case field_or_null wl ''comment'' of
                          JStr s \<Rightarrow> JStr s | _ \<Rightarrow> JNull)]"
  have pw: "project_worklog p (JObj wl) =
      err_bind (if py_truthy (field_or_null wl ''timeSpent'')
                then Inr (field_or_null wl ''timeSpent'')
                else format_seconds_human p (field_or_null wl ''timeSpentSeconds''))
        (\<lambda>h. Inr (JObj (?item h)))"
    unfolding project_worklog_def get_in_shape [OF au] py_get_null err_bind_simps ..
  show "\<exists>item.
      project_worklog p (JObj wl) = Inr (JObj item) \<and>
      (\<forall>s. field_or_null wl ''timeSpent'' = JStr s \<and> s \<noteq> [] \<longrightarrow>
           map_of item ''timeSpentHuman'' = Some (JStr s)) \<and>
      (field_or_null wl ''timeSpent'' = JNull \<or> field_or_null wl ''timeSpent'' = JStr [] \<longrightarrow>
         (\<exists>h. map_of item ''timeSpentHuman'' = Some h \<and>
            format_seconds_human p (field_or_null wl ''timeSpentSeconds'') = Inr h)) \<and>
      map_of item ''comment'' =
        Some (case field_or_null wl ''comment'' of JStr s \<Rightarrow> JStr s | _ \<Rightarrow> JNull)"
  proof (cases "py_truthy (field_or_null wl ''timeSpent'')")
    case True
    then have "project_worklog p (JObj wl) =
        Inr (JObj (?item (field_or_null wl ''timeSpent'')))"
      by (simp add: pw)
    with True show ?thesis
      by auto
  next
    case False
    with a format_seconds_human_shape obtain h where
      h: "format_seconds_human p (field_or_null wl ''timeSpentSeconds'') = Inr h"
      by blast
    with False have "project_worklog p (JObj wl) = Inr (JObj (?item h))"
      by (simp add: pw)
    with False h show ?thesis
      by auto
  qed
qed

theorem project_worklog_fields_witness:
  "(\<exists>item.
      project_worklog (\<lambda>_. None)
        (JObj [(''timeSpent'', JStr ''1h 30m''), (''timeSpentSeconds'', JInt 5400),
               (''comment'', JObj [(''type'', JStr ''doc'')])]) = Inr (JObj item) \<and>
      map_of item ''timeSpentHuman'' = Some (JStr ''1h 30m'') \<and>
      map_of item ''comment'' = Some JNull) \<and>
   (\<exists>item.
      project_worklog (\<lambda>_. None)
        (JObj [(''timeSpentSeconds'', JInt 5400), (''comment'', JStr ''review'')]) =
        Inr (JObj item) \<and>
      map_of item ''timeSpentHuman'' = Some (JStr ''1 hour, 30 minutes'') \<and>
      map_of item ''comment'' = Some (JStr ''review''))"
proof -
  have f: "format_seconds_human (\<lambda>_. None) (JInt 5400) = Inr (JStr ''1 hour, 30 minutes'')"
    by (simp add: format_seconds_human_def str_int_def str_nat.simps)
  from project_worklog_fields
    [of "[(''timeSpent'', JStr ''1h 30m''), (''timeSpentSeconds'', JInt 5400),
          (''comment'', JObj [(''type'', JStr ''doc'')])]" "\<lambda>_. None"]
  have a: "\<exists>item.
      project_worklog (\<lambda>_. None)
        (JObj [(''timeSpent'', JStr ''1h 30m''), (''timeSpentSeconds'', JInt 5400),
               (''comment'', JObj [(''type'', JStr ''doc'')])]) = Inr (JObj item) \<and>
      map_of item ''timeSpentHuman'' = Some (JStr ''1h 30m'') \<and>
      map_of item ''comment'' = Some JNull"
    by (simp add: field_or_null_def object_or_null_def)
  from project_worklog_fields
    [of "[(''timeSpentSeconds'', JInt 5400), (''comment'', JStr ''review'')]" "\<lambda>_. None"]
  have b: "\<exists>item.
      project_worklog (\<lambda>_. None)
        (JObj [(''timeSpentSeconds'', JInt 5400), (''comment'', JStr ''review'')]) =
        Inr (JObj item) \<and>
      map_of item ''timeSpentHuman'' = Some (JStr ''1 hour, 30 minutes'') \<and>
      map_of item ''comment'' = Some (JStr ''review'')"
    by (simp add: field_or_null_def object_or_null_def seconds_shape_def f)
  from a b show ?thesis
    by blast
qed

section \<open>Properties of the queries\<close>

text \<open>A word without the character \<open>c\<close> lies on one side of an occurrence of \<open>c\<close>.\<close>

lemma sublist_split_at:
  assumes c: "c \<notin> set w" and s: "sublist w (xs @ c # ys)"
  shows "sublist w xs \<or> sublist w ys"
proof -
  have pre: "w2 = []" if "prefix w2 (c # ys)" "set w2 \<subseteq> set w" for w2
    using that c by (cases w2) auto
  from s consider "sublist w xs" | "sublist w (c # ys)"
    | w1 w2 where "w = w1 @ w2" "suffix w1 xs" "prefix w2 (c # ys)"
    unfolding sublist_append by blast
  then show ?thesis
  proof cases
    case 1
    then show ?thesis by simp
  next
    case 2
    then consider "prefix w (c # ys)" | "sublist w ys"
      unfolding sublist_Cons_right by blast
    then show ?thesis
    proof cases
      case 1
      with pre [of w] show ?thesis by simp
    next
      case 2
      then show ?thesis by simp
    qed
  next
    case 3
    with pre [of w2] have "w2 = []"
      by simp
    with 3 show ?thesis
      by (auto simp: suffix_def)
  qed
qed

lemma export_jql_updated_no_resolution:
  assumes "\<not> sublist ''resolution'' project"
  shows "\<not> sublist ''resolution'' (export_jql True project)"
proof
  assume "sublist ''resolution'' (export_jql True project)"
  then have "sublist ''resolution'' (project @ CHR '' '' #
      ''AND statusCategory != Done AND updated >= startOfMonth(-1) AND updated < startOfMonth() ORDER BY updated ASC'')"
    by (simp add: export_jql_def sublist_Cons_right)
  from sublist_split_at [OF _ this] assms show False
    by (simp add: sublist_Cons_right)
qed

lemma main_jql_updated_no_resolution:
  assumes "\<not> sublist ''resolution'' project"
  shows "\<not> sublist ''resolution'' (main_jql True project)"
proof
  assume "sublist ''resolution'' (main_jql True project)"
  then have "sublist ''resolution'' (project @ CHR '' '' #
      ''AND status NOT IN (Open) AND updated >= startOfMonth(-1) AND updated < startOfMonth() ORDER BY updated ASC'')"
    by (simp add: main_jql_def sublist_Cons_right)
  from sublist_split_at [OF _ this] assms show False
    by (simp add: sublist_Cons_right)
qed

lemma sublist_after: "sublist w zs \<Longrightarrow> sublist w (xs @ ys @ zs)"
  by (metis append_assoc sublist_append)

text \<open>
  The claim C6 fails: the project key is put into the query as it is given, and the key
  \<open>X OR resolution IS EMPTY OR project = X\<close> gives, with \<open>useUpdated\<close> true, a query with
  a resolution term, in the web endpoint and in the command-line tool.
\<close>

theorem jql_updated_resolution_in_key:
  "sublist ''resolution'' (export_jql True ''X OR resolution IS EMPTY OR project = X'') \<and>
   sublist ''resolution'' (main_jql True ''X OR resolution IS EMPTY OR project = X'')"
  by (simp add: export_jql_def main_jql_def sublist_Cons_right)

text \<open>
  C6, amended. With \<open>useUpdated\<close> false the query contains \<open>resolution IS NOT EMPTY\<close> and
  the lower and upper bounds on \<open>resolutiondate\<close>; with \<open>useUpdated\<close> true it contains the
  bounds on \<open>updated\<close>, and the builder adds no resolution term: the text after the
  project key has no occurrence of \<open>resolution\<close>, and the whole query has none when the
  project key itself has none. The bounds are the query language's \<open>startOfMonth(-1)\<close>
  and \<open>startOfMonth()\<close>. The first half is the web endpoint's query, the second the
  command-line tool's.
\<close>

theorem jql_terms:
  "sublist ''resolution IS NOT EMPTY'' (export_jql False project) \<and>
   sublist ''resolutiondate >= startOfMonth(-1)'' (export_jql False project) \<and>
   sublist ''resolutiondate < startOfMonth()'' (export_jql False project) \<and>
   sublist ''updated >= startOfMonth(-1)'' (export_jql True project) \<and>
   sublist ''updated < startOfMonth()'' (export_jql True project) \<and>
   (\<exists>tail. export_jql True project = ''project = '' @ project @ tail \<and>
      \<not> sublist ''resolution'' tail) \<and>
   (\<not> sublist ''resolution'' project \<longrightarrow> \<not> sublist ''resolution'' (export_jql True project)) \<and>
   sublist ''resolution IS NOT EMPTY'' (main_jql False project) \<and>
   sublist ''resolutiondate >= startOfMonth(-1)'' (main_jql False project) \<and>
   sublist ''resolutiondate < startOfMonth()'' (main_jql False project) \<and>
   sublist ''updated >= startOfMonth(-1)'' (main_jql True project) \<and>
   sublist ''updated < startOfMonth()'' (main_jql True project) \<and>
   (\<exists>tail. main_jql True project = ''project = '' @ project @ tail \<and>
      \<not> sublist ''resolution'' tail) \<and>
   (\<not> sublist ''resolution'' project \<longrightarrow> \<not> sublist ''resolution'' (main_jql True project))"
proof -
  have r: "sublist ''resolution IS NOT EMPTY''
      ('' AND resolution IS NOT EMPTY AND resolutiondate >= startOfMonth(-1) AND resolutiondate < startOfMonth() ORDER BY resolutiondate ASC'')"
    "sublist ''resolutiondate >= startOfMonth(-1)''
      ('' AND resolution IS NOT EMPTY AND resolutiondate >= startOfMonth(-1) AND resolutiondate < startOfMonth() ORDER BY resolutiondate ASC'')"
    "sublist ''resolutiondate < startOfMonth()''
      ('' AND resolution IS NOT EMPTY AND resolutiondate >= startOfMonth(-1) AND resolutiondate < startOfMonth() ORDER BY resolutiondate ASC'')"
    by (simp_all add: sublist_Cons_right)
  have u: "sublist ''updated >= startOfMonth(-1)''
      ('' AND statusCategory != Done AND updated >= startOfMonth(-1) AND updated < startOfMonth() ORDER BY updated ASC'')"
    "sublist ''updated < startOfMonth()''
      ('' AND statusCategory != Done AND updated >= startOfMonth(-1) AND updated < startOfMonth() ORDER BY updated ASC'')"
    "\<not> sublist ''resolution''
      ('' AND statusCategory != Done AND updated >= startOfMonth(-1) AND updated < startOfMonth() ORDER BY updated ASC'')"
    by (simp_all add: sublist_Cons_right)
  have c: "sublist ''updated >= startOfMonth(-1)''
      ('' AND status NOT IN (Open) AND updated >= startOfMonth(-1) AND updated < startOfMonth() ORDER BY updated ASC'')"
    "sublist ''updated < startOfMonth()''
      ('' AND status NOT IN (Open) AND updated >= startOfMonth(-1) AND updated < startOfMonth() ORDER BY updated ASC'')"
    "\<not> sublist ''resolution''
      ('' AND status NOT IN (Open) AND updated >= startOfMonth(-1) AND updated < startOfMonth() ORDER BY updated ASC'')"
    by (simp_all add: sublist_Cons_right)
  have ef: "export_jql False project = ''project = '' @ project @
      '' AND resolution IS NOT EMPTY AND resolutiondate >= startOfMonth(-1) AND resolutiondate < startOfMonth() ORDER BY resolutiondate ASC''"
    and mf: "main_jql False project = ''project = '' @ project @
      '' AND resolution IS NOT EMPTY AND resolutiondate >= startOfMonth(-1) AND resolutiondate < startOfMonth() ORDER BY resolutiondate ASC''"
    and et: "export_jql True project = ''project = '' @ project @
      '' AND statusCategory != Done AND updated >= startOfMonth(-1) AND updated < startOfMonth() ORDER BY updated ASC''"
    and mt: "main_jql True project = ''project = '' @ project @
      '' AND status NOT IN (Open) AND updated >= startOfMonth(-1) AND updated < startOfMonth() ORDER BY updated ASC''"
    by (simp_all add: export_jql_def main_jql_def)
  have e1: "sublist ''resolution IS NOT EMPTY'' (export_jql False project)"
    and e2: "sublist ''resolutiondate >= startOfMonth(-1)'' (export_jql False project)"
    and e3: "sublist ''resolutiondate < startOfMonth()'' (export_jql False project)"
    unfolding ef by (rule sublist_after, rule r)+
  have e4: "sublist ''updated >= startOfMonth(-1)'' (export_jql True project)"
    and e5: "sublist ''updated < startOfMonth()'' (export_jql True project)"
    unfolding et by (rule sublist_after, rule u)+
  have m1: "sublist ''resolution IS NOT EMPTY'' (main_jql False project)"
    and m2: "sublist ''resolutiondate >= startOfMonth(-1)'' (main_jql False project)"
    and m3: "sublist ''resolutiondate < startOfMonth()'' (main_jql False project)"
    unfolding mf by (rule sublist_after, rule r)+
  have m4: "sublist ''updated >= startOfMonth(-1)'' (main_jql True project)"
    and m5: "sublist ''updated < startOfMonth()'' (main_jql True project)"
    unfolding mt by (rule sublist_after, rule c)+
  have e6: "\<exists>tail. export_jql True project = ''project = '' @ project @ tail \<and>
      \<not> sublist ''resolution'' tail"
    using et u(3) by blast
  have m6: "\<exists>tail. main_jql True project = ''project = '' @ project @ tail \<and>
      \<not> sublist ''resolution'' tail"
    using mt c(3) by blast
  from e1 e2 e3 e4 e5 e6 m1 m2 m3 m4 m5 m6
    export_jql_updated_no_resolution [of project] main_jql_updated_no_resolution [of project]
  show ?thesis
    by blast
qed

theorem jql_terms_witness:
  "\<not> sublist ''resolution'' (export_jql True ''DEMO'') \<and>
   \<not> sublist ''resolution'' (main_jql True ''DEMO'') \<and>
   export_jql True ''DEMO'' =
     ''project = DEMO AND statusCategory != Done AND updated >= startOfMonth(-1) AND updated < startOfMonth() ORDER BY updated ASC''"
proof -
  have "\<not> sublist ''resolution'' ''DEMO''"
    by (simp add: sublist_Cons_right)
  with jql_terms [of "''DEMO''"] show ?thesis
    by (simp add: export_jql_def)
qed

section \<open>Properties of the export endpoint\<close>

lemma py_strip_Nil: "py_strip [] = []"
  by (simp add: py_strip_def)

lemma abort_400: "flask_abort 400 d = Abort 400 d"
  by (simp add: flask_abort_def aborter_codes_def)

text \<open>
  C8. When one of \<open>baseUrl\<close>, \<open>projectKey\<close>, \<open>username\<close> and \<open>password\<close> is missing
  from the form or empty, the endpoint aborts with status 400 and the requests sent are
  those sent before: no request goes out and nothing is exported.
\<close>

theorem export_missing_parameter:
  "list_ex (\<lambda>k. form k = None \<or> form k = Some [])
     [''baseUrl'', ''projectKey'', ''username'', ''password''] \<longrightarrow>
   export up p form sent = Some (Inl (Abort 400 ''Parametres manquants''), sent)"
proof
  assume "list_ex (\<lambda>k. form k = None \<or> form k = Some [])
     [''baseUrl'', ''projectKey'', ''username'', ''password'']"
  then have "form_get form ''baseUrl'' = [] \<or> form_get form ''projectKey'' = [] \<or>
      form_get form ''username'' = [] \<or> form_get form ''password'' = []"
    by (auto simp: form_get_def)
  then have "py_strip (form_get form ''baseUrl'') = [] \<or>
      py_strip (form_get form ''projectKey'') = [] \<or>
      py_strip (form_get form ''username'') = [] \<or> form_get form ''password'' = []"
    by (auto simp: py_strip_Nil)
  then show "export up p form sent = Some (Inl (Abort 400 ''Parametres manquants''), sent)"
    unfolding export_def Let_def abort_400 by (simp only: de_Morgan_conj not_not if_True)
qed

theorem export_missing_parameter_witness:
  "export forbidden_upstream (\<lambda>_. None)
     (map_of [(''baseUrl'', ''https://jira.example.org''), (''projectKey'', ''DEMO''),
              (''username'', ''user''), (''password'', '''')]) [] =
   Some (Inl (Abort 400 ''Parametres manquants''), [])"
proof -
  have "list_ex
      (\<lambda>k. map_of [(''baseUrl'', ''https://jira.example.org''), (''projectKey'', ''DEMO''),
                    (''username'', ''user''), (''password'', '''')] k = None \<or>
           map_of [(''baseUrl'', ''https://jira.example.org''), (''projectKey'', ''DEMO''),
                   (''username'', ''user''), (''password'', '''')] k = Some [])
      [''baseUrl'', ''projectKey'', ''username'', ''password'']"
    by simp
  with export_missing_parameter show ?thesis
    by blast
qed

section \<open>Responses with an error status\<close>



















end
